theory Spec2Isabelle
  imports Main
begin

section \<open>JavaScript values as the gateway uses them\<close>

text \<open>
  A call that may throw returns a sum: \<open>Inl msg\<close> is \<^verbatim>\<open>throw new Error(msg)\<close>,
  \<open>Inr v\<close> is a normal return. A property that may be \<^verbatim>\<open>undefined\<close> is an
  option; \<open>truthy\<close> is JavaScript's truthiness of such a string property
  (\<^verbatim>\<open>undefined\<close> and the empty string are falsy).
\<close>

type_synonym 'a call = "string + 'a"

fun truthy :: "string option \<Rightarrow> bool" where
  "truthy None = False"
| "truthy (Some s) = (s \<noteq> [])"

text \<open>\<^verbatim>\<open>a || b\<close> on string properties.\<close>

definition js_or :: "string option \<Rightarrow> string option \<Rightarrow> string option" where
  "js_or a b = (if truthy a then a else b)"

text \<open>
  \<^verbatim>\<open>String.prototype.toLowerCase\<close> on the ASCII range (addresses are hexadecimal
  text): the letters A to Z move to a to z, every other character stays.
\<close>

definition lower_char :: "char \<Rightarrow> char" where
  "lower_char c =
     (case map_of (zip ''ABCDEFGHIJKLMNOPQRSTUVWXYZ'' ''abcdefghijklmnopqrstuvwxyz'') c of
        Some l \<Rightarrow> l
      | None \<Rightarrow> c)"

definition toLowerCase :: "string \<Rightarrow> string" where
  "toLowerCase s = map lower_char s"

section \<open>src/utils/redis.js: the key-value store\<close>

subsection \<open>Stored values\<close>

text \<open>
  The nonce record is \<^verbatim>\<open>{ status, timestamp, ...metadata }\<close>; the pending one carries
  \<^verbatim>\<open>network, payer, route, vm\<close>, the confirmed one adds \<^verbatim>\<open>txHash, blockNumber\<close>.
\<close>

record nonce_record =
  nr_status :: string
  nr_timestamp :: int
  nr_network :: string
  nr_payer :: string
  nr_route :: string
  nr_vm :: string
  nr_txHash :: "string option"
  nr_blockNumber :: "int option"

text \<open>
  The receipt \<^verbatim>\<open>paymentResponseData\<close>; the PAYMENT-RESPONSE header is the base64 text of
  its JSON, an injective encoding, so the header value is kept as the receipt itself.
\<close>

record receipt =
  rc_success :: bool
  rc_txHash :: string
  rc_network :: string
  rc_blockNumber :: "int option"
  rc_facilitator :: "string option"

text \<open>\<^verbatim>\<open>{ paymentResponseHeader, settlement }\<close>, the \<^verbatim>\<open>response\<close> of an idempotency record.\<close>

record idem_response =
  ir_paymentResponseHeader :: "receipt option"
  ir_settlement :: "receipt option"

record idem_record =
  id_timestamp :: int
  id_response :: "idem_response option"

datatype rvalue = VNonce nonce_record | VIdem idem_record | VNum int

text \<open>
  The store maps a key to its value and its time to live in seconds (\<open>None\<close>: no expiry
  set). Expiry itself, the passing of time, is not part of the model.
\<close>

type_synonym store = "string \<Rightarrow> (rvalue \<times> int option) option"

definition NONCE_PREFIX :: string where "NONCE_PREFIX = ''x402:nonce:''"
definition IDEMPOTENCY_PREFIX :: string where "IDEMPOTENCY_PREFIX = ''x402:idempotency:''"
definition CREDIT_PREFIX :: string where "CREDIT_PREFIX = ''x402:credit:''"

definition NONCE_PENDING_TTL :: int where "NONCE_PENDING_TTL = 3600"
definition NONCE_CONFIRMED_TTL :: int where "NONCE_CONFIRMED_TTL = 604800"
definition IDEMPOTENCY_TTL :: int where "IDEMPOTENCY_TTL = 3600"

subsection \<open>The commands of the server\<close>

definition redis_GET :: "store \<Rightarrow> string \<Rightarrow> rvalue option" where
  "redis_GET s k = map_option fst (s k)"

text \<open>\<^verbatim>\<open>SET key value EX ttl\<close>, and with \<^verbatim>\<open>NX\<close>: the reply is OK (\<open>True\<close>) or null.\<close>

definition redis_SET_EX :: "store \<Rightarrow> string \<Rightarrow> rvalue \<Rightarrow> int \<Rightarrow> store" where
  "redis_SET_EX s k v t = s(k \<mapsto> (v, Some t))"

definition redis_SET_NX_EX :: "store \<Rightarrow> string \<Rightarrow> rvalue \<Rightarrow> int \<Rightarrow> bool \<times> store" where
  "redis_SET_NX_EX s k v t = (if s k = None then (True, redis_SET_EX s k v t) else (False, s))"

definition redis_DEL :: "store \<Rightarrow> string \<Rightarrow> store" where
  "redis_DEL s k = s(k := None)"

text \<open>
  \<^verbatim>\<open>INCR\<close> and \<^verbatim>\<open>DECR\<close> treat a missing key as 0 and keep the time to live; the scripts
  below reach them only on a missing key or a number.
\<close>

definition redis_INCR :: "store \<Rightarrow> string \<Rightarrow> int \<times> store" where
  "redis_INCR s k =
     (case s k of
        Some (VNum n, t) \<Rightarrow> (n + 1, s(k \<mapsto> (VNum (n + 1), t)))
      | _ \<Rightarrow> (1, s(k \<mapsto> (VNum 1, None))))"

definition redis_DECR :: "store \<Rightarrow> string \<Rightarrow> int \<times> store" where
  "redis_DECR s k =
     (case s k of
        Some (VNum n, t) \<Rightarrow> (n - 1, s(k \<mapsto> (VNum (n - 1), t)))
      | _ \<Rightarrow> (- 1, s(k \<mapsto> (VNum (- 1), None))))"

text \<open>\<^verbatim>\<open>EXPIRE\<close> does nothing on a missing key and deletes the key on a timeout that is not positive.\<close>

definition redis_EXPIRE :: "store \<Rightarrow> string \<Rightarrow> int \<Rightarrow> store" where
  "redis_EXPIRE s k t =
     (case s k of
        None \<Rightarrow> s
      | Some (v, _) \<Rightarrow> if t \<le> 0 then s(k := None) else s(k \<mapsto> (v, Some t)))"

text \<open>
  Lua's \<^verbatim>\<open>tonumber(redis.call('GET', KEYS[1]) or 0)\<close>: a missing key gives 0, a number
  itself, anything else \<^verbatim>\<open>nil\<close> (\<open>None\<close>), on which the comparison that follows raises.
\<close>

fun lua_count :: "rvalue option \<Rightarrow> int option" where
  "lua_count None = Some 0"
| "lua_count (Some (VNum n)) = Some n"
| "lua_count (Some _) = None"

text \<open>JavaScript's truthiness of a stored value: an object is truthy, a number unless 0.\<close>

fun truthy_val :: "rvalue \<Rightarrow> bool" where
  "truthy_val (VNum n) = (n \<noteq> 0)"
| "truthy_val _ = True"

subsection \<open>The exported operations\<close>

text \<open>
  Every operation wraps its client call in \<^verbatim>\<open>try\<close>/\<^verbatim>\<open>catch\<close>. The first argument
  says whether that call throws (the store is unreachable); a call that throws was not
  executed by the server, so the store is unchanged.
\<close>

definition getNonce :: "bool \<Rightarrow> store \<Rightarrow> string \<Rightarrow> rvalue option" where
  "getNonce throws s nonce =
     (if throws then None
      else (case redis_GET s (NONCE_PREFIX @ nonce) of
              None \<Rightarrow> None
            | Some v \<Rightarrow> if truthy_val v then Some v else None))"

text \<open>The metadata the middleware passes to the two nonce writes.\<close>

record nonce_meta =
  nm_network :: string
  nm_payer :: string
  nm_route :: string
  nm_vm :: string

definition pending_record :: "int \<Rightarrow> nonce_meta \<Rightarrow> nonce_record" where
  "pending_record now m =
     \<lparr>nr_status = ''pending'', nr_timestamp = now, nr_network = nm_network m,
      nr_payer = nm_payer m, nr_route = nm_route m, nr_vm = nm_vm m,
      nr_txHash = None, nr_blockNumber = None\<rparr>"

definition setNoncePending :: "bool \<Rightarrow> int \<Rightarrow> store \<Rightarrow> string \<Rightarrow> nonce_meta \<Rightarrow> bool \<times> store" where
  "setNoncePending throws now s nonce metadata =
     (if throws then (False, s)
      else redis_SET_NX_EX s (NONCE_PREFIX @ nonce) (VNonce (pending_record now metadata))
             NONCE_PENDING_TTL)"

record settlement_data =
  sd_txHash :: string
  sd_network :: string
  sd_blockNumber :: "int option"
  sd_payer :: string
  sd_route :: string
  sd_vm :: string

definition confirmed_record :: "int \<Rightarrow> settlement_data \<Rightarrow> nonce_record" where
  "confirmed_record now d =
     \<lparr>nr_status = ''confirmed'', nr_timestamp = now, nr_network = sd_network d,
      nr_payer = sd_payer d, nr_route = sd_route d, nr_vm = sd_vm d,
      nr_txHash = Some (sd_txHash d), nr_blockNumber = sd_blockNumber d\<rparr>"

definition setNonceConfirmed :: "bool \<Rightarrow> int \<Rightarrow> store \<Rightarrow> string \<Rightarrow> settlement_data \<Rightarrow> store" where
  "setNonceConfirmed throws now s nonce settlementData =
     (if throws then s
      else redis_SET_EX s (NONCE_PREFIX @ nonce) (VNonce (confirmed_record now settlementData))
             NONCE_CONFIRMED_TTL)"

definition deleteNonce :: "bool \<Rightarrow> store \<Rightarrow> string \<Rightarrow> store" where
  "deleteNonce throws s nonce = (if throws then s else redis_DEL s (NONCE_PREFIX @ nonce))"

definition getIdempotencyCache :: "bool \<Rightarrow> store \<Rightarrow> string \<Rightarrow> rvalue option" where
  "getIdempotencyCache throws s paymentId =
     (if throws then None
      else (case redis_GET s (IDEMPOTENCY_PREFIX @ paymentId) of
              None \<Rightarrow> None
            | Some v \<Rightarrow> if truthy_val v then Some v else None))"

definition setIdempotencyCache :: "bool \<Rightarrow> int \<Rightarrow> store \<Rightarrow> string \<Rightarrow> idem_response \<Rightarrow> store" where
  "setIdempotencyCache throws now s paymentId responseData =
     (if throws then s
      else redis_SET_EX s (IDEMPOTENCY_PREFIX @ paymentId)
             (VIdem \<lparr>id_timestamp = now, id_response = Some responseData\<rparr>) IDEMPOTENCY_TTL)"

definition credit_key :: "string \<Rightarrow> string \<Rightarrow> string" where
  "credit_key payerAddress routeKey = CREDIT_PREFIX @ toLowerCase payerAddress @ '':'' @ routeKey"

text \<open>\<^verbatim>\<open>typeof count === 'number' ? count : 0\<close>, and 0 when the read throws.\<close>

definition getCreditCount :: "bool \<Rightarrow> store \<Rightarrow> string \<Rightarrow> string \<Rightarrow> int" where
  "getCreditCount throws s payerAddress routeKey =
     (if throws then 0
      else (case redis_GET s (credit_key payerAddress routeKey) of
              Some (VNum n) \<Rightarrow> n
            | _ \<Rightarrow> 0))"

text \<open>The Lua script of \<^verbatim>\<open>decrementCredit\<close>, run atomically by the server.\<close>

definition decrement_script :: "store \<Rightarrow> string \<Rightarrow> (int \<times> store) call" where
  "decrement_script s key =
     (case lua_count (redis_GET s key) of
        None \<Rightarrow> Inl ''attempt to compare nil with number''
      | Some count \<Rightarrow>
          if count > 0 then Inr (1, snd (redis_DECR s key)) else Inr (0, s))"

definition decrementCredit :: "bool \<Rightarrow> store \<Rightarrow> string \<Rightarrow> string \<Rightarrow> bool \<times> store" where
  "decrementCredit throws s payerAddress routeKey =
     (if throws then (False, s)
      else (case decrement_script s (credit_key payerAddress routeKey) of
              Inl err \<Rightarrow> (False, s)
            | Inr (result, s') \<Rightarrow> (result = 1, s')))"

text \<open>The Lua script of \<^verbatim>\<open>incrementCredit\<close>; \<^verbatim>\<open>ARGV\<close> is \<^verbatim>\<open>[maxCredits, ttlSeconds]\<close>.\<close>

definition increment_script :: "store \<Rightarrow> string \<Rightarrow> int \<Rightarrow> int \<Rightarrow> (int \<times> store) call" where
  "increment_script s key maxCredits ttlSeconds =
     (case lua_count (redis_GET s key) of
        None \<Rightarrow> Inl ''attempt to compare nil with number''
      | Some count \<Rightarrow>
          (let (count', s') = (if count < maxCredits then redis_INCR s key else (count, s))
           in Inr (count', redis_EXPIRE s' key ttlSeconds)))"

definition incrementCredit :: "bool \<Rightarrow> store \<Rightarrow> string \<Rightarrow> string \<Rightarrow> int \<Rightarrow> int \<Rightarrow> int \<times> store" where
  "incrementCredit throws s payerAddress routeKey maxCredits ttlSeconds =
     (if throws then (- 1, s)
      else (case increment_script s (credit_key payerAddress routeKey) maxCredits ttlSeconds of
              Inl err \<Rightarrow> (- 1, s)
            | Inr (result, s') \<Rightarrow> (result, s')))"

subsection \<open>Interleavings of credit operations\<close>

text \<open>
  Both scripts run atomically on the server, so an interleaving of concurrent requests is a
  sequence of whole operations, each by any payer on any route. The cap of the increments
  is the route's \<^verbatim>\<open>maxCreditsPerPayer\<close>.
\<close>

datatype credit_op =
    Increment bool string string int
  | Decrement bool string string

fun credit_step :: "int \<Rightarrow> store \<Rightarrow> credit_op \<Rightarrow> store" where
  "credit_step cap s (Increment throws payer route ttl) =
     snd (incrementCredit throws s payer route cap ttl)"
| "credit_step cap s (Decrement throws payer route) =
     snd (decrementCredit throws s payer route)"

definition credit_run :: "int \<Rightarrow> credit_op list \<Rightarrow> store \<Rightarrow> store" where
  "credit_run cap ops s = foldl (credit_step cap) s ops"

text \<open>The counter a key holds: the number stored there, 0 when the key is missing.\<close>

definition counter :: "store \<Rightarrow> string \<Rightarrow> int" where
  "counter s key = (case s key of Some (VNum n, _) \<Rightarrow> n | _ \<Rightarrow> 0)"

section \<open>Amount scaling\<close>

text \<open>
  The verifiers, the facilitator and SVM settlement paths and the challenge builder each
  repeat the same three lines:
  \<^verbatim>\<open>decimalDiff = network.token.decimals - 6;
  decimalDiff > 0 ? basePriceAtomic * (10n ** BigInt(decimalDiff)) : basePriceAtomic\<close>
\<close>

definition requiredAmount :: "int \<Rightarrow> int \<Rightarrow> int" where
  "requiredAmount basePriceAtomic decimals =
     (let decimalDiff = decimals - 6
      in if decimalDiff > 0 then basePriceAtomic * 10 ^ nat decimalDiff else basePriceAtomic)"

section \<open>src/config/routes.js: networks and routes\<close>

record token =
  tk_address :: string
  tk_name :: string
  tk_version :: "string option"
  tk_decimals :: int

record facilitator =
  fc_url :: string
  fc_apiKeyEnv :: string
  fc_networkName :: "string option"
  fc_facilitatorContract :: "string option"
  fc_x402Version :: "nat option"

record network =
  nw_vm :: string
  nw_caip2 :: string
  nw_chainId :: "int option"
  nw_rpcEnvVar :: string
  nw_token :: token
  nw_facilitator :: "facilitator option"

definition usdc :: "string \<Rightarrow> token" where
  "usdc address =
     \<lparr>tk_address = address, tk_name = ''USD Coin'', tk_version = Some ''2'', tk_decimals = 6\<rparr>"

text \<open>
  Three of the fourteen entries of \<^verbatim>\<open>ALL_NETWORKS\<close>, one for each payment path: local
  EVM, EVM through a facilitator, and SVM.
\<close>

definition BASE :: network where
  "BASE =
     \<lparr>nw_vm = ''evm'', nw_caip2 = ''eip155:8453'', nw_chainId = Some 8453,
      nw_rpcEnvVar = ''BASE_RPC_URL'',
      nw_token = usdc ''0x833589fCD6eDb6E08f4c7C32D4f71b54bdA02913'',
      nw_facilitator = None\<rparr>"

definition MEGAETH :: network where
  "MEGAETH =
     \<lparr>nw_vm = ''evm'', nw_caip2 = ''eip155:4326'', nw_chainId = Some 4326,
      nw_rpcEnvVar = ''MEGAETH_RPC_URL'',
      nw_token =
        \<lparr>tk_address = ''0xFAfDdbb3FC7688494971a79cc65DCa3EF82079E7'', tk_name = ''MegaUSD'',
         tk_version = Some ''1'', tk_decimals = 18\<rparr>,
      nw_facilitator =
        Some \<lparr>fc_url = ''https://api.mrdn.finance/v1'', fc_apiKeyEnv = ''MERIDIAN_API_KEY'',
              fc_networkName = Some ''megaeth'',
              fc_facilitatorContract = Some ''0x8E7769D440b3460b92159Dd9C6D17302b036e2d6'',
              fc_x402Version = Some 1\<rparr>\<rparr>"

definition SOLANA_MAINNET :: network where
  "SOLANA_MAINNET =
     \<lparr>nw_vm = ''svm'', nw_caip2 = ''solana:5eykt4UsFv8P8NJdTREpY1vzqKqZKvdp'',
      nw_chainId = None, nw_rpcEnvVar = ''SOLANA_RPC_URL'',
      nw_token =
        \<lparr>tk_address = ''EPjFWdd5AufqSSqeM2qN1xzybapC8G4wEGGkZwyTDt1v'', tk_name = ''USDC'',
         tk_version = None, tk_decimals = 6\<rparr>,
      nw_facilitator = None\<rparr>"

text \<open>
  \<^verbatim>\<open>SUPPORTED_NETWORKS\<close> is the table of active networks in insertion order; the functions
  below take it as the association list \<open>nets\<close>, looked up with \<open>map_of\<close> and
  enumerated (\<^verbatim>\<open>Object.values\<close>) with \<open>map snd\<close>.
\<close>

type_synonym networks = "(string \<times> network) list"

record route =
  rt_price :: string
  rt_priceAtomic :: int
  rt_payTo :: "string option"
  rt_payToSol :: "string option"
  rt_description :: string
  rt_mimeType :: string
  rt_creditOnStatusCodes :: "nat list option"
  rt_maxCreditsPerPayer :: "int option"
  rt_creditTtl :: "int option"

record creditConfig =
  cc_creditOnStatusCodes :: "nat list"
  cc_maxCreditsPerPayer :: int
  cc_creditTtl :: int

definition CREDIT_DEFAULTS :: creditConfig where
  "CREDIT_DEFAULTS =
     \<lparr>cc_creditOnStatusCodes = [500, 502, 503, 504], cc_maxCreditsPerPayer = 10,
      cc_creditTtl = 86400\<rparr>"

section \<open>The payment envelope\<close>

text \<open>
  The decoded JSON of the payment header, at the types the verifier reads its members:
  \<^verbatim>\<open>BigInt(...)\<close> throws on text that is not an integer, so \<^verbatim>\<open>value\<close>,
  \<^verbatim>\<open>validAfter\<close> and \<^verbatim>\<open>validBefore\<close> are integers (on these \<^verbatim>\<open>Number(...)\<close>
  compares as the integer does against the clock). A member that may be missing is an option.
\<close>

record authorization =
  au_from :: string
  au_to :: string
  au_value :: int
  au_validAfter :: int
  au_validBefore :: int
  au_nonce :: string

datatype jsval = Undefined | Str string | NotAString

text \<open>
  A truthy \<^verbatim>\<open>extensions\<close> member: the \<^verbatim>\<open>paymentId\<close> of its \<^verbatim>\<open>'payment-identifier'\<close>
  entry, \<open>None\<close> when the entry is missing.
\<close>

record extensions =
  ex_paymentId :: "jsval option"

record payload =
  pl_authorization :: "authorization option"
  pl_signature :: string
  pl_transaction :: "string option"
  pl_extensions :: "extensions option"

record paymentPayload =
  pp_x402Version :: "nat option"
  pp_scheme :: string
  pp_network :: string
  pp_payload :: "payload option"
  pp_extensions :: "extensions option"

record request =
  rq_protocol :: string
  rq_originalUrl :: string
  rq_headers :: "string \<Rightarrow> string option"

section \<open>The collaborators outside the repository\<close>

datatype store_call =
    GetNonce | SetNoncePending | SetNonceConfirmed | DeleteNonce
  | GetIdempotencyCache | SetIdempotencyCache
  | GetCreditCount | DecrementCredit | IncrementCredit

text \<open>The arguments of viem's \<^verbatim>\<open>verifyTypedData\<close>: address, domain, message, signature.\<close>

record typed_data =
  td_address :: string
  td_domain_name :: string
  td_domain_version :: "string option"
  td_domain_chainId :: "int option"
  td_domain_verifyingContract :: string
  td_from :: string
  td_to :: string
  td_value :: int
  td_validAfter :: int
  td_validBefore :: int
  td_nonce :: string
  td_signature :: string

text \<open>What the SVM facilitator library is called with, and what it answers.\<close>

record svm_request =
  sq_payload :: "payload option"
  sq_network :: string
  sq_amount :: int
  sq_asset :: string
  sq_payTo :: string
  sq_feePayer :: string

record svm_verified =
  sv_isValid :: bool
  sv_invalidReason :: "string option"
  sv_payer :: "string option"

record svm_settled =
  ss_success :: bool
  ss_errorReason :: "string option"
  ss_transaction :: string
  ss_network :: "string option"
  ss_payer :: "string option"

text \<open>The body posted to the external facilitator, and its answers.\<close>

record fac_request =
  fq_endpoint :: string
  fq_apiKey :: "string option"
  fq_x402Version :: nat
  fq_scheme :: string
  fq_network :: string
  fq_payload :: "payload option"
  fq_amount :: int
  fq_payTo :: "string option"
  fq_asset :: string
  fq_resource :: string
  fq_description :: string
  fq_mimeType :: string

record fac_verify_data =
  fv_isValid :: bool
  fv_payer :: "string option"
  fv_invalidReason :: "string option"
  fv_errorMessage :: "string option"
  fv_json :: string

datatype fac_verify_response = NonJson nat | Json bool nat fac_verify_data

record fac_settle_data =
  fs_ok :: bool
  fs_success :: bool
  fs_errorReason :: "string option"
  fs_errorMessage :: "string option"
  fs_json :: string
  fs_transaction :: string
  fs_network :: "string option"

text \<open>
  Everything a request reads from outside: the process environment, the clock at each
  place \<^verbatim>\<open>Date.now()\<close> is read, whether each store call throws, and the libraries and
  services called, each a function of what the code passes to it.
\<close>

record env =
  process_env :: "string \<Rightarrow> string option"
  verify_now :: int
  date_now :: "store_call \<Rightarrow> int"
  store_throws :: "store_call \<Rightarrow> bool"
  decode :: "string \<Rightarrow> paymentPayload option"
  sha256hex :: "string \<Rightarrow> string"
  verifyTypedData :: "typed_data \<Rightarrow> bool call"
  balanceOf :: "network \<Rightarrow> string \<Rightarrow> int call"
  transferWithAuthorization :: "network \<Rightarrow> authorization \<Rightarrow> string \<Rightarrow> (string \<times> int) call"
  getSvmFacilitator :: "string call"
  svm_verify :: "svm_request \<Rightarrow> svm_verified call"
  svm_settle :: "svm_request \<Rightarrow> svm_settled call"
  fac_verify :: "fac_request \<Rightarrow> fac_verify_response call"
  fac_settle :: "fac_request \<Rightarrow> fac_settle_data call"

section \<open>src/middleware/x402.js: helpers\<close>

definition isSvmNetwork :: "network \<Rightarrow> bool" where
  "isSvmNetwork nw = (nw_vm nw = ''svm'')"

text \<open>
  \<^verbatim>\<open>{ valid: false, reason }\<close> or \<^verbatim>\<open>{ valid: true, payer }\<close>. A reason is text; the
  templates that print a number keep the number.
\<close>

datatype reason =
    Text string
  | InsufficientPayment int int
  | InsufficientBalance int int
  | FacilitatorNonJson nat
  | FacilitatorError nat string

datatype verification = Valid "string option" | Invalid reason

datatype balance_check = Sufficient | Insufficient int int

text \<open>
  \<^verbatim>\<open>getPublicClient\<close> gives no client without an RPC URL; then, and when the read throws,
  the balance counts as sufficient.
\<close>

definition checkBalance :: "env \<Rightarrow> network \<Rightarrow> string \<Rightarrow> int \<Rightarrow> balance_check" where
  "checkBalance e nw from required =
     (if \<not> truthy (process_env e (nw_rpcEnvVar nw)) then Sufficient
      else (case balanceOf e nw from of
              Inl err \<Rightarrow> Sufficient
            | Inr balance \<Rightarrow> if balance < required then Insufficient balance required else Sufficient))"

text \<open>The character class of \<^verbatim>\<open>/^[a-zA-Z0-9_-]+$/\<close>.\<close>

definition id_char :: "char \<Rightarrow> bool" where
  "id_char c =
     (c \<in> set ''abcdefghijklmnopqrstuvwxyzABCDEFGHIJKLMNOPQRSTUVWXYZ0123456789_-'')"

definition extractPaymentIdentifier :: "paymentPayload \<Rightarrow> string option" where
  "extractPaymentIdentifier pp =
     (let extensions =
        (case pp_extensions pp of
           Some x \<Rightarrow> Some x
         | None \<Rightarrow> (case pp_payload pp of None \<Rightarrow> None | Some pl \<Rightarrow> pl_extensions pl))
      in case extensions of
           None \<Rightarrow> None
         | Some x \<Rightarrow>
             (case ex_paymentId x of
                Some (Str paymentId) \<Rightarrow>
                  if paymentId \<noteq> [] \<and> 16 \<le> length paymentId \<and> length paymentId \<le> 128 \<and>
                     list_all id_char paymentId
                  then Some paymentId else None
              | _ \<Rightarrow> None))"

section \<open>EVM: verify payment (local, no facilitator)\<close>

definition status_of :: "rvalue \<Rightarrow> string" where
  "status_of existing =
     (case existing of
        VNonce r \<Rightarrow> if nr_status r = [] then ''unknown'' else nr_status r
      | _ \<Rightarrow> ''unknown'')"

definition typed_data_of :: "network \<Rightarrow> authorization \<Rightarrow> string \<Rightarrow> typed_data" where
  "typed_data_of nw au signature =
     \<lparr>td_address = au_from au,
      td_domain_name = tk_name (nw_token nw), td_domain_version = tk_version (nw_token nw),
      td_domain_chainId = nw_chainId nw, td_domain_verifyingContract = tk_address (nw_token nw),
      td_from = au_from au, td_to = au_to au, td_value = au_value au,
      td_validAfter = au_validAfter au, td_validBefore = au_validBefore au,
      td_nonce = au_nonce au, td_signature = signature\<rparr>"

text \<open>The checks of \<^verbatim>\<open>verifyPaymentEvm\<close> from the signature on.\<close>

definition verify_signature_and_balance ::
    "env \<Rightarrow> network \<Rightarrow> authorization \<Rightarrow> string \<Rightarrow> int \<Rightarrow> verification" where
  "verify_signature_and_balance e nw au signature required =
     (case verifyTypedData e (typed_data_of nw au signature) of
        Inl err \<Rightarrow> Invalid (Text (''Signature verification failed: '' @ err))
      | Inr isValid \<Rightarrow>
          if \<not> isValid then Invalid (Text ''Signature does not match sender'')
          else (case checkBalance e nw (au_from au) required of
                  Insufficient has needs \<Rightarrow> Invalid (InsufficientBalance has needs)
                | Sufficient \<Rightarrow> Valid None))"

text \<open>The checks on the authorization, once network and scheme are accepted.\<close>

definition verify_authorization ::
    "env \<Rightarrow> store \<Rightarrow> network \<Rightarrow> route \<Rightarrow> authorization \<Rightarrow> string \<Rightarrow> verification" where
  "verify_authorization e s nw routeConfig au signature =
     (let required = requiredAmount (rt_priceAtomic routeConfig) (tk_decimals (nw_token nw))
      in if au_value au < required then Invalid (InsufficientPayment (au_value au) required)
         else (case map_option toLowerCase (rt_payTo routeConfig) of
                 None \<Rightarrow> Invalid (Text ''No payTo address configured'')
               | Some payTo \<Rightarrow>
                   if payTo = [] then Invalid (Text ''No payTo address configured'')
                   else if toLowerCase (au_to au) \<noteq> payTo
                     then Invalid (Text (''Wrong recipient: expected '' @ payTo))
                   else (let now = verify_now e div 1000
                         in if now < au_validAfter au then Invalid (Text ''Payment not yet valid'')
                            else if now > au_validBefore au then Invalid (Text ''Payment expired'')
                            else (case getNonce (store_throws e GetNonce) s (au_nonce au) of
                                    Some existing \<Rightarrow>
                                      Invalid (Text (''Nonce already used ('' @ status_of existing @ '')''))
                                  | None \<Rightarrow>
                                      verify_signature_and_balance e nw au signature required))))"

text \<open>
  Destructuring \<^verbatim>\<open>paymentPayload.payload\<close> throws when it is missing, and so does reading
  \<^verbatim>\<open>authorization.value\<close> of a missing authorization.
\<close>

definition verifyPaymentEvm ::
    "env \<Rightarrow> networks \<Rightarrow> store \<Rightarrow> paymentPayload \<Rightarrow> route \<Rightarrow> verification call" where
  "verifyPaymentEvm e nets s pp routeConfig =
     (case pp_payload pp of
        None \<Rightarrow> Inl ''Cannot destructure property of undefined''
      | Some pl \<Rightarrow>
          (case map_of nets (pp_network pp) of
             None \<Rightarrow> Inr (Invalid (Text (''Unsupported network: '' @ pp_network pp)))
           | Some nw \<Rightarrow>
               if pp_scheme pp \<noteq> ''exact''
               then Inr (Invalid (Text (''Unsupported scheme: '' @ pp_scheme pp)))
               else (case pl_authorization pl of
                       None \<Rightarrow> Inl ''Cannot read properties of undefined''
                     | Some au \<Rightarrow>
                         Inr (verify_authorization e s nw routeConfig au (pl_signature pl)))))"

section \<open>EVM: settle payment on-chain\<close>

record settlement =
  st_txHash :: string
  st_network :: string
  st_blockNumber :: "int option"
  st_payer :: "string option"
  st_facilitator :: "string option"

definition settlePaymentEvm :: "env \<Rightarrow> networks \<Rightarrow> paymentPayload \<Rightarrow> settlement call" where
  "settlePaymentEvm e nets pp =
     (case pp_payload pp of
        None \<Rightarrow> Inl ''Cannot destructure property of undefined''
      | Some pl \<Rightarrow>
          (case map_of nets (pp_network pp) of
             None \<Rightarrow> Inl ''Cannot read properties of undefined''
           | Some nw \<Rightarrow>
               if \<not> truthy (process_env e (nw_rpcEnvVar nw))
               then Inl (''No RPC URL for '' @ pp_network pp @ '' (env: '' @ nw_rpcEnvVar nw @ '')'')
               else (case pl_authorization pl of
                       None \<Rightarrow> Inl ''Cannot read properties of undefined''
                     | Some au \<Rightarrow>
                         (case transferWithAuthorization e nw au (pl_signature pl) of
                            Inl err \<Rightarrow> Inl err
                          | Inr (txHash, blockNumber) \<Rightarrow>
                              Inr \<lparr>st_txHash = txHash, st_network = pp_network pp,
                                   st_blockNumber = Some blockNumber, st_payer = None,
                                   st_facilitator = None\<rparr>))))"

section \<open>SVM: verify and settle through the facilitator library\<close>

definition svm_request_of :: "paymentPayload \<Rightarrow> route \<Rightarrow> network \<Rightarrow> string \<Rightarrow> string \<Rightarrow> svm_request" where
  "svm_request_of pp routeConfig nw payTo feePayerAddress =
     \<lparr>sq_payload = pp_payload pp, sq_network = pp_network pp,
      sq_amount = requiredAmount (rt_priceAtomic routeConfig) (tk_decimals (nw_token nw)),
      sq_asset = tk_address (nw_token nw), sq_payTo = payTo, sq_feePayer = feePayerAddress\<rparr>"

definition or_unknown :: "string option \<Rightarrow> string" where
  "or_unknown x = (case js_or x (Some ''unknown'') of Some r \<Rightarrow> r | None \<Rightarrow> ''unknown'')"

definition verifyPaymentSvm :: "env \<Rightarrow> paymentPayload \<Rightarrow> route \<Rightarrow> network \<Rightarrow> verification call" where
  "verifyPaymentSvm e pp routeConfig nw =
     (case getSvmFacilitator e of
        Inl err \<Rightarrow> Inl err
      | Inr feePayerAddress \<Rightarrow>
          if \<not> truthy (rt_payToSol routeConfig)
          then Inr (Invalid (Text ''No Solana payTo address configured''))
          else (case svm_verify e (svm_request_of pp routeConfig nw (the (rt_payToSol routeConfig)) feePayerAddress) of
                  Inl err \<Rightarrow> Inr (Invalid (Text (''SVM verification error: '' @ err)))
                | Inr result \<Rightarrow>
                    if \<not> sv_isValid result
                    then Inr (Invalid (Text (''SVM verification failed: '' @ or_unknown (sv_invalidReason result))))
                    else Inr (Valid (sv_payer result))))"

definition settlePaymentSvm :: "env \<Rightarrow> paymentPayload \<Rightarrow> route \<Rightarrow> network \<Rightarrow> settlement call" where
  "settlePaymentSvm e pp routeConfig nw =
     (case getSvmFacilitator e of
        Inl err \<Rightarrow> Inl err
      | Inr feePayerAddress \<Rightarrow>
          if \<not> truthy (rt_payToSol routeConfig)
          then Inl ''No Solana payTo address configured''
          else (case svm_settle e (svm_request_of pp routeConfig nw (the (rt_payToSol routeConfig)) feePayerAddress) of
                  Inl err \<Rightarrow> Inl err
                | Inr result \<Rightarrow>
                    if \<not> ss_success result
                    then Inl (''SVM settlement failed: '' @ or_unknown (ss_errorReason result))
                    else Inr \<lparr>st_txHash = ss_transaction result,
                              st_network = (case js_or (ss_network result) (Some (pp_network pp)) of
                                              Some n \<Rightarrow> n | None \<Rightarrow> pp_network pp),
                              st_blockNumber = None, st_payer = ss_payer result,
                              st_facilitator = None\<rparr>))"

section \<open>Facilitator-based verify and settle (EVM, external service)\<close>

text \<open>\<^verbatim>\<open>x402Version || paymentPayload.x402Version || 2\<close> on numbers: 0 is falsy.\<close>

definition version_or :: "nat option \<Rightarrow> nat option \<Rightarrow> nat" where
  "version_or a b =
     (case a of
        Some (Suc n) \<Rightarrow> Suc n
      | _ \<Rightarrow> (case b of Some (Suc m) \<Rightarrow> Suc m | _ \<Rightarrow> 2))"

definition fac_request_of ::
    "env \<Rightarrow> string \<Rightarrow> facilitator \<Rightarrow> paymentPayload \<Rightarrow> route \<Rightarrow> string \<Rightarrow> network \<Rightarrow> fac_request" where
  "fac_request_of e path f pp routeConfig resource nw =
     \<lparr>fq_endpoint = fc_url f @ path,
      fq_apiKey = process_env e (fc_apiKeyEnv f),
      fq_x402Version = version_or (fc_x402Version f) (pp_x402Version pp),
      fq_scheme = pp_scheme pp,
      fq_network = (case js_or (fc_networkName f) (Some (pp_network pp)) of
                      Some n \<Rightarrow> n | None \<Rightarrow> pp_network pp),
      fq_payload = pp_payload pp,
      fq_amount = requiredAmount (rt_priceAtomic routeConfig) (tk_decimals (nw_token nw)),
      fq_payTo = js_or (fc_facilitatorContract f) (rt_payTo routeConfig),
      fq_asset = tk_address (nw_token nw),
      fq_resource = resource,
      fq_description = rt_description routeConfig,
      fq_mimeType = rt_mimeType routeConfig\<rparr>"

definition verifyPaymentViaFacilitator ::
    "env \<Rightarrow> paymentPayload \<Rightarrow> route \<Rightarrow> string \<Rightarrow> network \<Rightarrow> verification call" where
  "verifyPaymentViaFacilitator e pp routeConfig resource nw =
     (case nw_facilitator nw of
        None \<Rightarrow> Inl ''Cannot destructure property of undefined''
      | Some f \<Rightarrow>
          if \<not> truthy (process_env e (fc_apiKeyEnv f))
          then Inr (Invalid (Text (''No API key for facilitator (env: '' @ fc_apiKeyEnv f @ '')'')))
          else (case fac_verify e (fac_request_of e ''/verify'' f pp routeConfig resource nw) of
                  Inl err \<Rightarrow> Inr (Invalid (Text (''Facilitator verify failed: '' @ err)))
                | Inr (NonJson status) \<Rightarrow> Inr (Invalid (FacilitatorNonJson status))
                | Inr (Json ok status data) \<Rightarrow>
                    if \<not> ok
                    then Inr (Invalid (FacilitatorError status
                           (case js_or (fv_errorMessage data) (js_or (fv_invalidReason data) (Some (fv_json data))) of
                              Some m \<Rightarrow> m | None \<Rightarrow> fv_json data)))
                    else if fv_isValid data then Inr (Valid (fv_payer data))
                    else Inr (Invalid (Text
                           (case js_or (fv_invalidReason data) (Some ''Facilitator rejected payment'') of
                              Some m \<Rightarrow> m | None \<Rightarrow> ''Facilitator rejected payment'')))))"

definition settlePaymentViaFacilitator ::
    "env \<Rightarrow> paymentPayload \<Rightarrow> route \<Rightarrow> string \<Rightarrow> network \<Rightarrow> settlement call" where
  "settlePaymentViaFacilitator e pp routeConfig resource nw =
     (case nw_facilitator nw of
        None \<Rightarrow> Inl ''Cannot destructure property of undefined''
      | Some f \<Rightarrow>
          (case fac_settle e (fac_request_of e ''/settle'' f pp routeConfig resource nw) of
             Inl err \<Rightarrow> Inl err
           | Inr data \<Rightarrow>
               if \<not> fs_ok data \<or> \<not> fs_success data
               then Inl (''Facilitator settle failed: '' @
                      (case js_or (fs_errorReason data) (js_or (fs_errorMessage data) (Some (fs_json data))) of
                         Some m \<Rightarrow> m | None \<Rightarrow> fs_json data))
               else Inr \<lparr>st_txHash = fs_transaction data,
                         st_network = (case js_or (fs_network data) (Some (pp_network pp)) of
                                         Some n \<Rightarrow> n | None \<Rightarrow> pp_network pp),
                         st_blockNumber = None, st_payer = None,
                         st_facilitator = Some (fc_url f)\<rparr>))"

section \<open>Build the 402 Payment Required response\<close>

datatype extra = FeePayer string | Eip712Domain string "string option"

record accept =
  ac_scheme :: string
  ac_network :: string
  ac_maxAmountRequired :: int
  ac_amount :: int
  ac_maxTimeoutSeconds :: nat
  ac_resource :: string
  ac_description :: string
  ac_mimeType :: string
  ac_payTo :: "string option"
  ac_asset :: string
  ac_extra :: extra

record strict_accept =
  sa_scheme :: string
  sa_network :: string
  sa_amount :: int
  sa_payTo :: "string option"
  sa_maxTimeoutSeconds :: nat
  sa_asset :: string
  sa_extra :: extra

definition strict :: "accept \<Rightarrow> strict_accept" where
  "strict a =
     \<lparr>sa_scheme = ac_scheme a, sa_network = ac_network a, sa_amount = ac_amount a,
      sa_payTo = ac_payTo a, sa_maxTimeoutSeconds = ac_maxTimeoutSeconds a,
      sa_asset = ac_asset a, sa_extra = ac_extra a\<rparr>"

definition resource_url :: "request \<Rightarrow> string" where
  "resource_url req =
     rq_protocol req @ ''://'' @
     (case rq_headers req ''host'' of None \<Rightarrow> ''undefined'' | Some h \<Rightarrow> h) @ rq_originalUrl req"

definition effectivePayTo :: "network \<Rightarrow> route \<Rightarrow> string option" where
  "effectivePayTo nw routeConfig =
     js_or (case nw_facilitator nw of None \<Rightarrow> None | Some f \<Rightarrow> fc_facilitatorContract f)
       (rt_payTo routeConfig)"

text \<open>The loop over \<^verbatim>\<open>Object.values(SUPPORTED_NETWORKS)\<close> that fills \<^verbatim>\<open>accepts\<close>.\<close>

fun accepts_loop :: "route \<Rightarrow> string \<Rightarrow> string option \<Rightarrow> network list \<Rightarrow> accept list" where
  "accepts_loop routeConfig resource svmFeePayerAddress [] = []"
| "accepts_loop routeConfig resource svmFeePayerAddress (nw # rest) =
     (let amountRequired = requiredAmount (rt_priceAtomic routeConfig) (tk_decimals (nw_token nw))
      in if isSvmNetwork nw
         then (if \<not> truthy (rt_payToSol routeConfig) \<or> \<not> truthy svmFeePayerAddress
               then accepts_loop routeConfig resource svmFeePayerAddress rest
               else \<lparr>ac_scheme = ''exact'', ac_network = nw_caip2 nw,
                     ac_maxAmountRequired = amountRequired, ac_amount = amountRequired,
                     ac_maxTimeoutSeconds = 3600, ac_resource = resource,
                     ac_description = rt_description routeConfig,
                     ac_mimeType = rt_mimeType routeConfig,
                     ac_payTo = rt_payToSol routeConfig, ac_asset = tk_address (nw_token nw),
                     ac_extra = FeePayer (the svmFeePayerAddress)\<rparr>
                    # accepts_loop routeConfig resource svmFeePayerAddress rest)
         else \<lparr>ac_scheme = ''exact'', ac_network = nw_caip2 nw,
               ac_maxAmountRequired = amountRequired, ac_amount = amountRequired,
               ac_maxTimeoutSeconds = 3600, ac_resource = resource,
               ac_description = rt_description routeConfig,
               ac_mimeType = rt_mimeType routeConfig,
               ac_payTo = effectivePayTo nw routeConfig, ac_asset = tk_address (nw_token nw),
               ac_extra = Eip712Domain (tk_name (nw_token nw)) (tk_version (nw_token nw))\<rparr>
              # accepts_loop routeConfig resource svmFeePayerAddress rest)"

text \<open>
  The header payload carries \<open>pr_accepts\<close>, the body \<open>pr_strictAccepts\<close>; both carry the
  resource and the constant \<^verbatim>\<open>extensions\<close>.
\<close>

record paymentRequired =
  pr_accepts :: "accept list"
  pr_strictAccepts :: "strict_accept list"
  pr_url :: string
  pr_description :: string
  pr_mimeType :: string

definition buildPaymentRequired :: "env \<Rightarrow> networks \<Rightarrow> route \<Rightarrow> request \<Rightarrow> paymentRequired" where
  "buildPaymentRequired e nets routeConfig req =
     (let resource = resource_url req;
          hasSvmNetworks = list_ex (\<lambda>n. nw_vm n = ''svm'') (map snd nets);
          svmFeePayerAddress =
            (if hasSvmNetworks
             then (case getSvmFacilitator e of Inl err \<Rightarrow> None | Inr feePayerAddress \<Rightarrow> Some feePayerAddress)
             else None);
          accepts = accepts_loop routeConfig resource svmFeePayerAddress (map snd nets)
      in \<lparr>pr_accepts = accepts, pr_strictAccepts = map strict accepts, pr_url = resource,
          pr_description = rt_description routeConfig, pr_mimeType = rt_mimeType routeConfig\<rparr>)"

section \<open>Credit system helpers\<close>

definition isCreditSystemEnabled :: "env \<Rightarrow> bool" where
  "isCreditSystemEnabled e = (process_env e ''ENABLE_CREDIT_SYSTEM'' = Some ''true'')"

definition getCreditConfig :: "route \<Rightarrow> creditConfig" where
  "getCreditConfig routeConfig =
     \<lparr>cc_creditOnStatusCodes =
        (case rt_creditOnStatusCodes routeConfig of
           Some codes \<Rightarrow> codes | None \<Rightarrow> cc_creditOnStatusCodes CREDIT_DEFAULTS),
      cc_maxCreditsPerPayer =
        (case rt_maxCreditsPerPayer routeConfig of
           Some m \<Rightarrow> m | None \<Rightarrow> cc_maxCreditsPerPayer CREDIT_DEFAULTS),
      cc_creditTtl =
        (case rt_creditTtl routeConfig of
           Some t \<Rightarrow> t | None \<Rightarrow> cc_creditTtl CREDIT_DEFAULTS)\<rparr>"

section \<open>The Express middleware\<close>

text \<open>
  What one run of the middleware leaves behind: how it ended (\<^verbatim>\<open>next()\<close>, a response, or
  a rejected promise), the headers it set on the response, the store, the calls it made to
  the store, the verifier and the settlement engine in their order, and the credit issuance
  it registered for the \<^verbatim>\<open>finish\<close> event.
\<close>

datatype hvalue = PaymentRequiredHeader paymentRequired | ReceiptHeader receipt | Literal string

record rbody =
  rb_challenge :: "paymentRequired option"
  rb_error :: string
  rb_message :: "string option"
  rb_reason :: "reason option"

datatype outcome = Next | Respond nat rbody | Crash string

datatype event =
    LookupIdempotency string
  | Verify string
  | ReadCredit string
  | ConsumeCredit string bool
  | ReserveNonce string bool
  | Settle string bool
  | ConfirmNonce string
  | ReleaseNonce string
  | CacheIdempotency string

record issuance =
  is_payerAddress :: string
  is_routeKey :: string
  is_creditOnStatusCodes :: "nat list"
  is_maxCreditsPerPayer :: int
  is_creditTtl :: int

record result =
  rs_outcome :: outcome
  rs_headers :: "(string \<times> hvalue) list"
  rs_store :: store
  rs_log :: "event list"
  rs_finish :: "issuance option"

definition payment_header :: "request \<Rightarrow> string option" where
  "payment_header req = js_or (rq_headers req ''payment-signature'') (rq_headers req ''x-payment'')"

definition pathLabel :: "network \<Rightarrow> string" where
  "pathLabel nw =
     (if isSvmNetwork nw then ''SVM''
      else if nw_facilitator nw \<noteq> None then ''facilitator'' else ''EVM'')"

definition verify_dispatch ::
    "env \<Rightarrow> networks \<Rightarrow> store \<Rightarrow> paymentPayload \<Rightarrow> route \<Rightarrow> string \<Rightarrow> network \<Rightarrow> verification call" where
  "verify_dispatch e nets s pp routeConfig resource nw =
     (if isSvmNetwork nw then verifyPaymentSvm e pp routeConfig nw
      else if nw_facilitator nw \<noteq> None then verifyPaymentViaFacilitator e pp routeConfig resource nw
      else verifyPaymentEvm e nets s pp routeConfig)"

definition settle_dispatch ::
    "env \<Rightarrow> networks \<Rightarrow> paymentPayload \<Rightarrow> route \<Rightarrow> string \<Rightarrow> network \<Rightarrow> settlement call" where
  "settle_dispatch e nets pp routeConfig resource nw =
     (if isSvmNetwork nw then settlePaymentSvm e pp routeConfig nw
      else if nw_facilitator nw \<noteq> None then settlePaymentViaFacilitator e pp routeConfig resource nw
      else settlePaymentEvm e nets pp)"

text \<open>
  \<^verbatim>\<open>verification.payer || paymentPayload.payload?.authorization?.from || 'unknown'\<close>
\<close>

definition payerAddress_of :: "string option \<Rightarrow> paymentPayload \<Rightarrow> string" where
  "payerAddress_of payer pp =
     or_unknown (js_or payer (map_option au_from (Option.bind (pp_payload pp) pl_authorization)))"

text \<open>The credit check: whether a credit was consumed, the store after it, the calls made.\<close>

definition credit_check ::
    "env \<Rightarrow> store \<Rightarrow> route \<Rightarrow> string \<Rightarrow> string \<Rightarrow> bool \<times> store \<times> event list" where
  "credit_check e s routeConfig routeKey payerAddress =
     (if isCreditSystemEnabled e \<and> payerAddress \<noteq> ''unknown''
      then (if cc_creditOnStatusCodes (getCreditConfig routeConfig) \<noteq> []
            then (let creditCount = getCreditCount (store_throws e GetCreditCount) s payerAddress routeKey
                  in if creditCount > 0
                     then (case decrementCredit (store_throws e DecrementCredit) s payerAddress routeKey of
                             (creditConsumed, s') \<Rightarrow>
                               (creditConsumed, s',
                                [ReadCredit (credit_key payerAddress routeKey),
                                 ConsumeCredit (credit_key payerAddress routeKey) creditConsumed]))
                     else (False, s, [ReadCredit (credit_key payerAddress routeKey)]))
            else (False, s, []))
      else (False, s, []))"

text \<open>The key the nonce is tracked under; \<open>None\<close> when the request has none.\<close>

definition nonceKey_of :: "env \<Rightarrow> network \<Rightarrow> paymentPayload \<Rightarrow> string option" where
  "nonceKey_of e nw pp =
     (if isSvmNetwork nw
      then (case Option.bind (pp_payload pp) pl_transaction of
              None \<Rightarrow> None
            | Some txData \<Rightarrow> if txData = [] then None else Some (''svm:'' @ sha256hex e txData))
      else if nw_facilitator nw = None
        then (case Option.bind (pp_payload pp) pl_authorization of
                None \<Rightarrow> None
              | Some au \<Rightarrow> if au_nonce au = [] then None else Some (au_nonce au))
      else None)"

definition vm_label :: "network \<Rightarrow> string" where
  "vm_label nw = (if isSvmNetwork nw then ''svm'' else ''evm'')"

definition receipt_of :: "settlement \<Rightarrow> receipt" where
  "receipt_of settlement =
     \<lparr>rc_success = True, rc_txHash = st_txHash settlement, rc_network = st_network settlement,
      rc_blockNumber = st_blockNumber settlement,
      rc_facilitator = (if truthy (st_facilitator settlement) then st_facilitator settlement else None)\<rparr>"

definition rejected :: "string \<Rightarrow> reason \<Rightarrow> outcome" where
  "rejected error why =
     Respond 402 \<lparr>rb_challenge = None, rb_error = error, rb_message = None, rb_reason = Some why\<rparr>"

text \<open>
  The settlement block, entered when no credit was consumed: reserve the nonce, settle,
  confirm the nonce, emit the receipt, cache it under the payment identifier; the
  \<^verbatim>\<open>catch\<close> releases the nonce. The first component is \<open>None\<close> when the block ran to
  \<^verbatim>\<open>didSettle = true\<close> and the response otherwise.
\<close>

definition settlement_block ::
    "env \<Rightarrow> networks \<Rightarrow> store \<Rightarrow> paymentPayload \<Rightarrow> route \<Rightarrow> string \<Rightarrow> string \<Rightarrow> network \<Rightarrow>
     string \<Rightarrow> string option \<Rightarrow> outcome option \<times> (string \<times> hvalue) list \<times> store \<times> event list" where
  "settlement_block e nets s pp routeConfig routeKey resource nw payerAddress paymentId =
     (let nonceKey = nonceKey_of e nw pp;
          reserved =
            (case nonceKey of
               None \<Rightarrow> (True, s, [])
             | Some k \<Rightarrow>
                 (case setNoncePending (store_throws e SetNoncePending) (date_now e SetNoncePending) s k
                         \<lparr>nm_network = pp_network pp, nm_payer = payerAddress, nm_route = routeKey,
                          nm_vm = vm_label nw\<rparr> of
                    (acquired, s') \<Rightarrow> (acquired, s', [ReserveNonce k acquired])))
      in case reserved of
           (acquired, s1, log1) \<Rightarrow>
             if \<not> acquired
             then (Some (rejected ''Payment verification failed''
                           (Text ''Nonce already used or settlement in progress'')), [], s1, log1)
             else (case settle_dispatch e nets pp routeConfig resource nw of
                     Inl err \<Rightarrow>
                       (Some (rejected ''Payment settlement failed'' (Text err)), [],
                        (case nonceKey of
                           None \<Rightarrow> s1
                         | Some k \<Rightarrow> deleteNonce (store_throws e DeleteNonce) s1 k),
                        log1 @ [Settle (pathLabel nw) False] @
                        (case nonceKey of None \<Rightarrow> [] | Some k \<Rightarrow> [ReleaseNonce k]))
                   | Inr settlement \<Rightarrow>
                       (let s2 =
                          (case nonceKey of
                             None \<Rightarrow> s1
                           | Some k \<Rightarrow>
                               setNonceConfirmed (store_throws e SetNonceConfirmed)
                                 (date_now e SetNonceConfirmed) s1 k
                                 \<lparr>sd_txHash = st_txHash settlement, sd_network = st_network settlement,
                                  sd_blockNumber = st_blockNumber settlement,
                                  sd_payer = or_unknown (js_or (st_payer settlement) (Some payerAddress)),
                                  sd_route = routeKey, sd_vm = vm_label nw\<rparr>);
                            paymentResponseData = receipt_of settlement;
                            s3 =
                              (case paymentId of
                                 None \<Rightarrow> s2
                               | Some pid \<Rightarrow>
                                   setIdempotencyCache (store_throws e SetIdempotencyCache)
                                     (date_now e SetIdempotencyCache) s2 pid
                                     \<lparr>ir_paymentResponseHeader = Some paymentResponseData,
                                      ir_settlement = Some paymentResponseData\<rparr>)
                        in (None, [(''PAYMENT-RESPONSE'', ReceiptHeader paymentResponseData)], s3,
                            log1 @ [Settle (pathLabel nw) True] @
                            (case nonceKey of None \<Rightarrow> [] | Some k \<Rightarrow> [ConfirmNonce k]) @
                            (case paymentId of None \<Rightarrow> [] | Some pid \<Rightarrow> [CacheIdempotency pid])))))"

text \<open>The registration of the \<^verbatim>\<open>finish\<close> listener that issues a credit.\<close>

definition schedule_issuance :: "env \<Rightarrow> route \<Rightarrow> string \<Rightarrow> string \<Rightarrow> bool \<Rightarrow> issuance option" where
  "schedule_issuance e routeConfig routeKey payerAddress didSettle =
     (if didSettle \<and> isCreditSystemEnabled e \<and> payerAddress \<noteq> ''unknown''
      then (let creditConfig = getCreditConfig routeConfig
            in if cc_creditOnStatusCodes creditConfig \<noteq> []
               then Some \<lparr>is_payerAddress = payerAddress, is_routeKey = routeKey,
                          is_creditOnStatusCodes = cc_creditOnStatusCodes creditConfig,
                          is_maxCreditsPerPayer = cc_maxCreditsPerPayer creditConfig,
                          is_creditTtl = cc_creditTtl creditConfig\<rparr>
               else None)
      else None)"

text \<open>The listener itself, run with the status code of the finished response.\<close>

definition on_finish :: "bool \<Rightarrow> issuance \<Rightarrow> nat \<Rightarrow> store \<Rightarrow> store" where
  "on_finish throws i statusCode s =
     (if statusCode \<in> set (is_creditOnStatusCodes i)
      then snd (incrementCredit throws s (is_payerAddress i) (is_routeKey i)
                  (is_maxCreditsPerPayer i) (is_creditTtl i))
      else s)"

text \<open>The middleware after a verification that returned valid.\<close>

definition after_verification ::
    "env \<Rightarrow> networks \<Rightarrow> store \<Rightarrow> event list \<Rightarrow> paymentPayload \<Rightarrow> route \<Rightarrow> string \<Rightarrow> string \<Rightarrow>
     network \<Rightarrow> string option \<Rightarrow> string option \<Rightarrow> result" where
  "after_verification e nets s log pp routeConfig routeKey resource nw payer paymentId =
     (let payerAddress = payerAddress_of payer pp
      in case credit_check e s routeConfig routeKey payerAddress of
           (creditConsumed, s1, log1) \<Rightarrow>
             if creditConsumed
             then \<lparr>rs_outcome = Next, rs_headers = [(''X-x402-Credit'', Literal ''consumed'')],
                   rs_store = s1, rs_log = log @ log1, rs_finish = None\<rparr>
             else (case settlement_block e nets s1 pp routeConfig routeKey resource nw payerAddress paymentId of
                     (Some response, headers, s2, log2) \<Rightarrow>
                       \<lparr>rs_outcome = response, rs_headers = headers, rs_store = s2,
                        rs_log = log @ log1 @ log2, rs_finish = None\<rparr>
                   | (None, headers, s2, log2) \<Rightarrow>
                       \<lparr>rs_outcome = Next, rs_headers = headers, rs_store = s2,
                        rs_log = log @ log1 @ log2,
                        rs_finish = schedule_issuance e routeConfig routeKey payerAddress True\<rparr>))"

text \<open>The middleware from the resolution of the network on.\<close>

definition after_idempotency ::
    "env \<Rightarrow> networks \<Rightarrow> store \<Rightarrow> event list \<Rightarrow> paymentPayload \<Rightarrow> route \<Rightarrow> string \<Rightarrow> request \<Rightarrow>
     string option \<Rightarrow> result" where
  "after_idempotency e nets s log pp routeConfig routeKey req paymentId =
     (case map_of nets (pp_network pp) of
        None \<Rightarrow>
          \<lparr>rs_outcome = rejected ''Unsupported network''
                          (Text (''Network '' @ pp_network pp @ '' is not supported'')),
           rs_headers = [], rs_store = s, rs_log = log, rs_finish = None\<rparr>
      | Some nw \<Rightarrow>
          (case verify_dispatch e nets s pp routeConfig (resource_url req) nw of
             Inl err \<Rightarrow>
               \<lparr>rs_outcome = Crash err, rs_headers = [], rs_store = s,
                rs_log = log @ [Verify (pathLabel nw)], rs_finish = None\<rparr>
           | Inr (Invalid why) \<Rightarrow>
               (let required = buildPaymentRequired e nets routeConfig req
                in \<lparr>rs_outcome =
                       Respond 402 \<lparr>rb_challenge = Some required,
                                    rb_error = ''Payment verification failed'',
                                    rb_message = None, rb_reason = Some why\<rparr>,
                     rs_headers = [(''PAYMENT-REQUIRED'', PaymentRequiredHeader required)],
                     rs_store = s, rs_log = log @ [Verify (pathLabel nw)], rs_finish = None\<rparr>)
           | Inr (Valid payer) \<Rightarrow>
               after_verification e nets s (log @ [Verify (pathLabel nw)]) pp routeConfig routeKey
                 (resource_url req) nw payer paymentId))"

text \<open>\<^verbatim>\<open>cached.response?.paymentResponseHeader\<close> of whatever the cache returned.\<close>

definition cached_header :: "rvalue \<Rightarrow> receipt option" where
  "cached_header cached =
     (case cached of
        VIdem r \<Rightarrow> Option.bind (id_response r) ir_paymentResponseHeader
      | _ \<Rightarrow> None)"

text \<open>The middleware from the decoded envelope on: the idempotency check first.\<close>

definition after_decode ::
    "env \<Rightarrow> networks \<Rightarrow> store \<Rightarrow> paymentPayload \<Rightarrow> route \<Rightarrow> string \<Rightarrow> request \<Rightarrow> result" where
  "after_decode e nets s pp routeConfig routeKey req =
     (case extractPaymentIdentifier pp of
        None \<Rightarrow> after_idempotency e nets s [] pp routeConfig routeKey req None
      | Some paymentId \<Rightarrow>
          (case getIdempotencyCache (store_throws e GetIdempotencyCache) s paymentId of
             Some cached \<Rightarrow>
               \<lparr>rs_outcome = Next,
                rs_headers =
                  (case cached_header cached of
                     None \<Rightarrow> []
                   | Some h \<Rightarrow> [(''PAYMENT-RESPONSE'', ReceiptHeader h)]),
                rs_store = s, rs_log = [LookupIdempotency paymentId], rs_finish = None\<rparr>
           | None \<Rightarrow>
               after_idempotency e nets s [LookupIdempotency paymentId] pp routeConfig routeKey req
                 (Some paymentId)))"

definition x402PaymentMiddleware ::
    "env \<Rightarrow> (string \<Rightarrow> route option) \<Rightarrow> networks \<Rightarrow> string \<Rightarrow> request \<Rightarrow> store \<Rightarrow> result" where
  "x402PaymentMiddleware e ROUTE_CONFIG nets routeKey req s =
     (case ROUTE_CONFIG routeKey of
        None \<Rightarrow>
          \<lparr>rs_outcome = Respond 500 \<lparr>rb_challenge = None, rb_error = ''Unknown route: '' @ routeKey,
                                     rb_message = None, rb_reason = None\<rparr>,
           rs_headers = [], rs_store = s, rs_log = [], rs_finish = None\<rparr>
      | Some routeConfig \<Rightarrow>
          if \<not> truthy (payment_header req)
          then (let required = buildPaymentRequired e nets routeConfig req
                in \<lparr>rs_outcome =
                       Respond 402 \<lparr>rb_challenge = Some required, rb_error = ''Payment required'',
                                    rb_message = Some (''This endpoint requires '' @ rt_price routeConfig @
                                      '' USDC. See accepts array for supported networks.''),
                                    rb_reason = None\<rparr>,
                     rs_headers = [(''PAYMENT-REQUIRED'', PaymentRequiredHeader required)],
                     rs_store = s, rs_log = [], rs_finish = None\<rparr>)
          else (case decode e (the (payment_header req)) of
                  None \<Rightarrow>
                    \<lparr>rs_outcome = Respond 400 \<lparr>rb_challenge = None,
                                               rb_error = ''Invalid payment payload encoding'',
                                               rb_message = None, rb_reason = None\<rparr>,
                     rs_headers = [], rs_store = s, rs_log = [], rs_finish = None\<rparr>
                | Some pp \<Rightarrow> after_decode e nets s pp routeConfig routeKey req))"

section \<open>Reading the log of a run\<close>

text \<open>
  The stage of the pipeline a call belongs to: the idempotency lookup, verification, the
  credit read, the credit consumption, the nonce reservation, settlement, the confirmation
  or release of the nonce, the idempotency write.
\<close>

fun phase :: "event \<Rightarrow> nat" where
  "phase (LookupIdempotency paymentId) = 0"
| "phase (Verify path) = 1"
| "phase (ReadCredit key) = 2"
| "phase (ConsumeCredit key creditConsumed) = 3"
| "phase (ReserveNonce nonceKey acquired) = 4"
| "phase (Settle path ok) = 5"
| "phase (ConfirmNonce nonceKey) = 6"
| "phase (ReleaseNonce nonceKey) = 6"
| "phase (CacheIdempotency paymentId) = 7"

text \<open>A settlement that succeeded, and a credit that was consumed.\<close>

fun is_settled :: "event \<Rightarrow> bool" where
  "is_settled (Settle path ok) = ok"
| "is_settled ev = False"

fun is_consumed :: "event \<Rightarrow> bool" where
  "is_consumed (ConsumeCredit key creditConsumed) = creditConsumed"
| "is_consumed ev = False"

definition settlements :: "event list \<Rightarrow> nat" where
  "settlements log = length (filter is_settled log)"

definition credits_consumed :: "event list \<Rightarrow> nat" where
  "credits_consumed log = length (filter is_consumed log)"

section \<open>A deployment and some requests, for the examples\<close>

text \<open>
  The route \<^verbatim>\<open>myapi\<close> of \<^verbatim>\<open>ROUTE_CONFIG\<close> with its environment variables resolved, two
  active networks, a payer, envelopes on Base and MegaETH, and an environment in which
  every collaborator answers; then variations of each.
\<close>

definition myapi :: route where
  "myapi =
     \<lparr>rt_price = ''$0.01'', rt_priceAtomic = 10000,
      rt_payTo = Some ''0xAbCd000000000000000000000000000000000001'', rt_payToSol = None,
      rt_description = ''Your API description here.'', rt_mimeType = ''application/json'',
      rt_creditOnStatusCodes = None, rt_maxCreditsPerPayer = None, rt_creditTtl = None\<rparr>"

text \<open>The same route when neither pay-to variable is set.\<close>

definition myapi_without_payTo :: route where
  "myapi_without_payTo = myapi\<lparr>rt_payTo := None\<rparr>"

definition routes0 :: "string \<Rightarrow> route option" where
  "routes0 = [''myapi'' \<mapsto> myapi]"

definition nets0 :: networks where
  "nets0 = [(''eip155:8453'', BASE), (''eip155:4326'', MEGAETH)]"

definition alice :: string where "alice = ''0xA11CE00000000000000000000000000000000002''"

definition auth0 :: authorization where
  "auth0 =
     \<lparr>au_from = alice, au_to = ''0xabcd000000000000000000000000000000000001'',
      au_value = 10000, au_validAfter = 0, au_validBefore = 1800000000, au_nonce = ''0x01''\<rparr>"

definition payload0 :: payload where
  "payload0 =
     \<lparr>pl_authorization = Some auth0, pl_signature = ''0xsigned'', pl_transaction = None,
      pl_extensions = None\<rparr>"

definition envelope_base :: paymentPayload where
  "envelope_base =
     \<lparr>pp_x402Version = Some 2, pp_scheme = ''exact'', pp_network = ''eip155:8453'',
      pp_payload = Some payload0, pp_extensions = None\<rparr>"

definition envelope_forged :: paymentPayload where
  "envelope_forged = envelope_base\<lparr>pp_payload := Some (payload0\<lparr>pl_signature := ''0xforged''\<rparr>)\<rparr>"

definition envelope_mega :: paymentPayload where
  "envelope_mega =
     envelope_base\<lparr>pp_network := ''eip155:4326'',
       pp_payload := Some (payload0\<lparr>pl_authorization := Some (auth0\<lparr>au_value := 10000000000000000\<rparr>)\<rparr>)\<rparr>"

definition paymentId0 :: string where "paymentId0 = ''pay_0123456789abcdef''"

text \<open>The Base envelope with a payment identifier.\<close>

definition envelope_paid :: paymentPayload where
  "envelope_paid = envelope_base\<lparr>pp_extensions := Some \<lparr>ex_paymentId = Some (Str paymentId0)\<rparr>\<rparr>"

text \<open>An envelope that is nothing but the payment identifier: no payload, no known network.\<close>

definition envelope_replay :: paymentPayload where
  "envelope_replay =
     \<lparr>pp_x402Version = None, pp_scheme = ''none'', pp_network = ''nowhere'',
      pp_payload = None, pp_extensions = Some \<lparr>ex_paymentId = Some (Str paymentId0)\<rparr>\<rparr>"

definition decode0 :: "string \<Rightarrow> paymentPayload option" where
  "decode0 =
     [''base'' \<mapsto> envelope_base, ''forged'' \<mapsto> envelope_forged, ''mega'' \<mapsto> envelope_mega,
      ''paid'' \<mapsto> envelope_paid, ''replay'' \<mapsto> envelope_replay]"

definition facilitator_accepts :: fac_verify_data where
  "facilitator_accepts =
     \<lparr>fv_isValid = True, fv_payer = Some alice, fv_invalidReason = None,
      fv_errorMessage = None, fv_json = ''{}''\<rparr>"

definition facilitator_settles :: fac_settle_data where
  "facilitator_settles =
     \<lparr>fs_ok = True, fs_success = True, fs_errorReason = None, fs_errorMessage = None,
      fs_json = ''{}'', fs_transaction = ''0xfac'', fs_network = Some ''megaeth''\<rparr>"

definition env0 :: env where
  "env0 =
     \<lparr>process_env = [''BASE_RPC_URL'' \<mapsto> ''https://base.example'',
                      ''MEGAETH_RPC_URL'' \<mapsto> ''https://mega.example'',
                      ''MERIDIAN_API_KEY'' \<mapsto> ''key'',
                      ''ENABLE_CREDIT_SYSTEM'' \<mapsto> ''true''],
      verify_now = 1700000000000,
      date_now = (\<lambda>c. 1700000000000),
      store_throws = (\<lambda>c. False),
      decode = decode0,
      sha256hex = (\<lambda>x. ''00''),
      verifyTypedData = (\<lambda>td. Inr (td_signature td = ''0xsigned'')),
      balanceOf = (\<lambda>nw a. Inr 1000000),
      transferWithAuthorization = (\<lambda>nw au sg. Inr (''0xtx'', 100)),
      getSvmFacilitator = Inl ''SOLANA_FACILITATOR_PRIVATE_KEY not configured'',
      svm_verify = (\<lambda>q. Inl ''unused''),
      svm_settle = (\<lambda>q. Inl ''unused''),
      fac_verify = (\<lambda>q. Inr (Json True 200 facilitator_accepts)),
      fac_settle = (\<lambda>q. Inr facilitator_settles)\<rparr>"


definition env_cache_read_fails :: env where
  "env_cache_read_fails = env0\<lparr>store_throws := (\<lambda>c. c = GetIdempotencyCache)\<rparr>"

definition env_confirm_fails :: env where
  "env_confirm_fails = env0\<lparr>store_throws := (\<lambda>c. c = SetNonceConfirmed)\<rparr>"




definition request_with :: "string \<Rightarrow> string \<Rightarrow> request" where
  "request_with host header =
     \<lparr>rq_protocol = ''https'', rq_originalUrl = ''/v1/myapi/x'',
      rq_headers = [''host'' \<mapsto> host, ''payment-signature'' \<mapsto> header]\<rparr>"

definition req0 :: request where "req0 = request_with ''gw.example'' ''base''"
definition req_mega :: request where "req_mega = request_with ''gw.example'' ''mega''"
definition req_paid :: request where "req_paid = request_with ''gw.example'' ''paid''"
definition req_replay :: request where "req_replay = request_with ''gw.example'' ''replay''"


definition req_unpaid :: request where
  "req_unpaid =
     \<lparr>rq_protocol = ''https'', rq_originalUrl = ''/v1/myapi/x'',
      rq_headers = [''host'' \<mapsto> ''gw.example'']\<rparr>"



definition receipt0 :: receipt where
  "receipt0 =
     \<lparr>rc_success = True, rc_txHash = ''0xold'', rc_network = ''eip155:8453'',
      rc_blockNumber = Some 99, rc_facilitator = None\<rparr>"

definition store_cached :: store where
  "store_cached =
     [IDEMPOTENCY_PREFIX @ paymentId0 \<mapsto>
        (VIdem \<lparr>id_timestamp = 1690000000000,
                id_response = Some \<lparr>ir_paymentResponseHeader = Some receipt0,
                                     ir_settlement = Some receipt0\<rparr>\<rparr>,
         Some IDEMPOTENCY_TTL)]"

definition store_one_credit :: store where
  "store_one_credit = [credit_key alice ''myapi'' \<mapsto> (VNum 1, Some 86400)]"

definition credit_ops0 :: "credit_op list" where
  "credit_ops0 =
     [Increment False alice ''myapi'' 86400, Increment False alice ''myapi'' 86400,
      Decrement True alice ''myapi'', Increment False alice ''myapi'' 86400,
      Decrement False alice ''myapi'']"

definition meta0 :: nonce_meta where
  "meta0 = \<lparr>nm_network = ''eip155:8453'', nm_payer = alice, nm_route = ''myapi'', nm_vm = ''evm''\<rparr>"

section \<open>The store operations and the settlement block, case by case\<close>

lemma setNoncePending_result:
  "setNoncePending throws now s k m =
     (if throws \<or> s (NONCE_PREFIX @ k) \<noteq> None then (False, s)
      else (True, s(NONCE_PREFIX @ k \<mapsto> (VNonce (pending_record now m), Some 3600))))"
  by (simp add: setNoncePending_def redis_SET_NX_EX_def redis_SET_EX_def NONCE_PENDING_TTL_def)

lemma nonce_key_not_idempotency_key [simp]:
  "NONCE_PREFIX @ k \<noteq> IDEMPOTENCY_PREFIX @ p" "IDEMPOTENCY_PREFIX @ p \<noteq> NONCE_PREFIX @ k"
  by (simp_all add: NONCE_PREFIX_def IDEMPOTENCY_PREFIX_def)

lemma credit_key_not_other_key [simp]:
  "credit_key a r \<noteq> IDEMPOTENCY_PREFIX @ p" "IDEMPOTENCY_PREFIX @ p \<noteq> credit_key a r"
  "credit_key a r \<noteq> NONCE_PREFIX @ k" "NONCE_PREFIX @ k \<noteq> credit_key a r"
  by (simp_all add: credit_key_def CREDIT_PREFIX_def NONCE_PREFIX_def IDEMPOTENCY_PREFIX_def)

text \<open>The settlement block of a request whose nonce is not tracked.\<close>

lemma settlement_block_untracked:
  assumes "nonceKey_of e nw pp = None"
  shows "settlement_block e nets s pp rc rk res nw payer pid =
     (case settle_dispatch e nets pp rc res nw of
        Inl err \<Rightarrow> (Some (rejected ''Payment settlement failed'' (Text err)), [], s,
                     [Settle (pathLabel nw) False])
      | Inr st \<Rightarrow>
          (None, [(''PAYMENT-RESPONSE'', ReceiptHeader (receipt_of st))],
           (case pid of
              None \<Rightarrow> s
            | Some p \<Rightarrow> setIdempotencyCache (store_throws e SetIdempotencyCache)
                 (date_now e SetIdempotencyCache) s p
                 \<lparr>ir_paymentResponseHeader = Some (receipt_of st), ir_settlement = Some (receipt_of st)\<rparr>),
           Settle (pathLabel nw) True # (case pid of None \<Rightarrow> [] | Some p \<Rightarrow> [CacheIdempotency p])))"
  using assms by (simp add: settlement_block_def Let_def split: sum.splits option.splits)

text \<open>The settlement block of a request whose nonce is tracked under \<open>k\<close>.\<close>

lemma settlement_block_tracked:
  assumes "nonceKey_of e nw pp = Some k"
  shows "settlement_block e nets s pp rc rk res nw payer pid =
     (if store_throws e SetNoncePending \<or> s (NONCE_PREFIX @ k) \<noteq> None
      then (Some (rejected ''Payment verification failed''
                    (Text ''Nonce already used or settlement in progress'')), [], s,
            [ReserveNonce k False])
      else (let s1 = s(NONCE_PREFIX @ k \<mapsto>
                       (VNonce (pending_record (date_now e SetNoncePending)
                          \<lparr>nm_network = pp_network pp, nm_payer = payer, nm_route = rk,
                           nm_vm = vm_label nw\<rparr>), Some 3600))
            in case settle_dispatch e nets pp rc res nw of
                 Inl err \<Rightarrow>
                   (Some (rejected ''Payment settlement failed'' (Text err)), [],
                    deleteNonce (store_throws e DeleteNonce) s1 k,
                    [ReserveNonce k True, Settle (pathLabel nw) False, ReleaseNonce k])
               | Inr st \<Rightarrow>
                   (let s2 = setNonceConfirmed (store_throws e SetNonceConfirmed)
                               (date_now e SetNonceConfirmed) s1 k
                               \<lparr>sd_txHash = st_txHash st, sd_network = st_network st,
                                sd_blockNumber = st_blockNumber st,
                                sd_payer = or_unknown (js_or (st_payer st) (Some payer)),
                                sd_route = rk, sd_vm = vm_label nw\<rparr>
                    in (None, [(''PAYMENT-RESPONSE'', ReceiptHeader (receipt_of st))],
                        (case pid of
                           None \<Rightarrow> s2
                         | Some p \<Rightarrow> setIdempotencyCache (store_throws e SetIdempotencyCache)
                              (date_now e SetIdempotencyCache) s2 p
                              \<lparr>ir_paymentResponseHeader = Some (receipt_of st),
                               ir_settlement = Some (receipt_of st)\<rparr>),
                        [ReserveNonce k True, Settle (pathLabel nw) True, ConfirmNonce k] @
                        (case pid of None \<Rightarrow> [] | Some p \<Rightarrow> [CacheIdempotency p])))))"
  using assms
  by (simp add: settlement_block_def setNoncePending_result Let_def split: sum.splits option.splits)

lemma setIdempotencyCache_other_key:
  "k \<noteq> IDEMPOTENCY_PREFIX @ p \<Longrightarrow> setIdempotencyCache throws now s p r k = s k"
  by (simp add: setIdempotencyCache_def redis_SET_EX_def)

lemma setNonceConfirmed_at_key:
  "setNonceConfirmed throws now s k d (NONCE_PREFIX @ k) =
     (if throws then s (NONCE_PREFIX @ k)
      else Some (VNonce (confirmed_record now d), Some 604800))"
  by (simp add: setNonceConfirmed_def redis_SET_EX_def NONCE_CONFIRMED_TTL_def)

lemma deleteNonce_at_key:
  "deleteNonce throws s k (NONCE_PREFIX @ k) = (if throws then s (NONCE_PREFIX @ k) else None)"
  by (simp add: deleteNonce_def redis_DEL_def)

lemma credit_check_not_consumed:
  "credit_check e s rc rk payer = (False, s1, l1) \<Longrightarrow> s1 = s"
  by (auto simp: credit_check_def decrementCredit_def decrement_script_def Let_def
      split: if_splits prod.splits option.splits sum.splits)

section \<open>The middleware, case by case\<close>

lemma credit_check_log:
  assumes "credit_check e s rc rk payer = (c, s1, l1)"
  shows "(l1 = [] \<or> l1 = [ReadCredit (credit_key payer rk)] \<or>
          l1 = [ReadCredit (credit_key payer rk), ConsumeCredit (credit_key payer rk) c]) \<and>
         (c \<longrightarrow> l1 = [ReadCredit (credit_key payer rk), ConsumeCredit (credit_key payer rk) True]) \<and>
         (l1 \<noteq> [] \<longrightarrow> isCreditSystemEnabled e \<and> payer \<noteq> ''unknown'')"
  using assms
  by (auto simp: credit_check_def Let_def split: if_splits prod.splits)

lemma settlement_block_log:
  assumes "settlement_block e nets s pp rc rk res nw payer pid = (out, hs, s2, l2)"
  shows "sorted_wrt (<) (map phase l2) \<and> (\<forall>ev \<in> set l2. 4 \<le> phase ev) \<and>
         credits_consumed l2 = 0 \<and>
         (out = None \<longrightarrow> settlements l2 = 1 \<and>
            (\<exists>st. hs = [(''PAYMENT-RESPONSE'', ReceiptHeader (receipt_of st))])) \<and>
         (out \<noteq> None \<longrightarrow> settlements l2 = 0 \<and> hs = [] \<and> (\<forall>i. CacheIdempotency i \<notin> set l2)) \<and>
         (\<forall>i. CacheIdempotency i \<in> set l2 \<longrightarrow> pid = Some i)"
proof (cases "nonceKey_of e nw pp")
  case None
  from assms show ?thesis
    unfolding settlement_block_untracked [OF None]
    by (auto simp: settlements_def credits_consumed_def split: sum.splits option.splits)
next
  case (Some k)
  from assms show ?thesis
    unfolding settlement_block_tracked [OF Some]
    by (auto simp: settlements_def credits_consumed_def Let_def
        split: sum.splits option.splits if_splits)
qed

lemma after_verification_cases:
  fixes r :: result
  assumes "r = after_verification e nets s log pp rc rk res nw payer pid"
  obtains
    (credit) s1 where
      "credit_check e s rc rk (payerAddress_of payer pp) =
         (True, s1, [ReadCredit (credit_key (payerAddress_of payer pp) rk),
                     ConsumeCredit (credit_key (payerAddress_of payer pp) rk) True])"
      "r = \<lparr>rs_outcome = Next, rs_headers = [(''X-x402-Credit'', Literal ''consumed'')],
            rs_store = s1,
            rs_log = log @ [ReadCredit (credit_key (payerAddress_of payer pp) rk),
                            ConsumeCredit (credit_key (payerAddress_of payer pp) rk) True],
            rs_finish = None\<rparr>"
  | (settle) l1 out hs s2 l2 where
      "credit_check e s rc rk (payerAddress_of payer pp) = (False, s, l1)"
      "settlement_block e nets s pp rc rk res nw (payerAddress_of payer pp) pid = (out, hs, s2, l2)"
      "r = \<lparr>rs_outcome = (case out of None \<Rightarrow> Next | Some response \<Rightarrow> response),
            rs_headers = hs, rs_store = s2, rs_log = log @ l1 @ l2,
            rs_finish = (case out of
                           None \<Rightarrow> schedule_issuance e rc rk (payerAddress_of payer pp) True
                         | Some response \<Rightarrow> None)\<rparr>"
proof -
  obtain c s1 l1 where cc: "credit_check e s rc rk (payerAddress_of payer pp) = (c, s1, l1)"
    by (cases "credit_check e s rc rk (payerAddress_of payer pp)")
  show thesis
  proof (cases c)
    case True
    with credit_check_log [OF cc] have
      l1: "l1 = [ReadCredit (credit_key (payerAddress_of payer pp) rk),
                 ConsumeCredit (credit_key (payerAddress_of payer pp) rk) True]" by simp
    show thesis
      by (rule credit [of s1]) (use cc True l1 assms in \<open>simp_all add: after_verification_def Let_def\<close>)
  next
    case False
    with cc have "credit_check e s rc rk (payerAddress_of payer pp) = (False, s1, l1)" by simp
    then have s1: "s1 = s" by (rule credit_check_not_consumed)
    obtain out hs s2 l2 where
      sb: "settlement_block e nets s pp rc rk res nw (payerAddress_of payer pp) pid = (out, hs, s2, l2)"
      by (cases "settlement_block e nets s pp rc rk res nw (payerAddress_of payer pp) pid")
    show thesis
      by (rule settle [of l1 out hs s2 l2])
         (use cc False s1 sb assms in \<open>simp_all add: after_verification_def Let_def split: option.splits\<close>)
  qed
qed

lemma middleware_cases:
  fixes r :: result
  assumes "r = x402PaymentMiddleware e R nets k req s"
  obtains
    (early) lk where
      "rs_outcome r \<noteq> Next" "rs_store r = s" "rs_finish r = None"
      "lk = [] \<or> (\<exists>i. lk = [LookupIdempotency i])"
      "rs_log r = lk \<or>
       (\<exists>p pp. rs_log r = lk @ [Verify p] \<and> decode e (the (payment_header req)) = Some pp \<and>
          lk = (case extractPaymentIdentifier pp of None \<Rightarrow> [] | Some i \<Rightarrow> [LookupIdempotency i]))"
  | (hit) rc pp paymentId cached where
      "R k = Some rc" "truthy (payment_header req)"
      "decode e (the (payment_header req)) = Some pp"
      "extractPaymentIdentifier pp = Some paymentId"
      "getIdempotencyCache (store_throws e GetIdempotencyCache) s paymentId = Some cached"
      "r = \<lparr>rs_outcome = Next,
            rs_headers = (case cached_header cached of
                            None \<Rightarrow> []
                          | Some h \<Rightarrow> [(''PAYMENT-RESPONSE'', ReceiptHeader h)]),
            rs_store = s, rs_log = [LookupIdempotency paymentId], rs_finish = None\<rparr>"
  | (verified) rc pp nw payer where
      "R k = Some rc" "truthy (payment_header req)"
      "decode e (the (payment_header req)) = Some pp"
      "\<forall>i. extractPaymentIdentifier pp = Some i \<longrightarrow>
           getIdempotencyCache (store_throws e GetIdempotencyCache) s i = None"
      "map_of nets (pp_network pp) = Some nw"
      "verify_dispatch e nets s pp rc (resource_url req) nw = Inr (Valid payer)"
      "r = after_verification e nets s
             ((case extractPaymentIdentifier pp of
                 None \<Rightarrow> []
               | Some i \<Rightarrow> [LookupIdempotency i]) @ [Verify (pathLabel nw)])
             pp rc k (resource_url req) nw payer (extractPaymentIdentifier pp)"
proof (cases "R k")
  case None
  show thesis
    by (rule early [of "[]"]) (use None assms in \<open>simp_all add: x402PaymentMiddleware_def\<close>)
next
  case (Some rc)
  note rc = Some
  show thesis
  proof (cases "truthy (payment_header req)")
    case False
    show thesis
      by (rule early [of "[]"])
         (use rc False assms in \<open>simp_all add: x402PaymentMiddleware_def Let_def\<close>)
  next
    case True
    note hd = True
    show thesis
    proof (cases "decode e (the (payment_header req))")
      case None
      show thesis
        by (rule early [of "[]"])
           (use rc hd None assms in \<open>simp_all add: x402PaymentMiddleware_def\<close>)
    next
      case (Some pp)
      note pp = Some
      have r: "r = after_decode e nets s pp rc k req"
        using rc hd pp assms by (simp add: x402PaymentMiddleware_def)
      define lk where "lk = (case extractPaymentIdentifier pp of
                 None \<Rightarrow> []
               | Some i \<Rightarrow> [LookupIdempotency i])"
      have lk_shape: "lk = [] \<or> (\<exists>i. lk = [LookupIdempotency i])"
        by (auto simp: lk_def split: option.splits)
      show thesis
      proof (cases "\<exists>i cached. extractPaymentIdentifier pp = Some i \<and>
                      getIdempotencyCache (store_throws e GetIdempotencyCache) s i = Some cached")
        case True
        then obtain i cached where
          i: "extractPaymentIdentifier pp = Some i"
             "getIdempotencyCache (store_throws e GetIdempotencyCache) s i = Some cached" by blast
        show thesis
          by (rule hit [OF rc hd pp i]) (use r i in \<open>simp add: after_decode_def\<close>)
      next
        case False
        then have miss: "\<forall>i. extractPaymentIdentifier pp = Some i \<longrightarrow>
           getIdempotencyCache (store_throws e GetIdempotencyCache) s i = None" by auto
        have r': "r = after_idempotency e nets s lk pp rc k req (extractPaymentIdentifier pp)"
          using r miss by (simp add: after_decode_def lk_def split: option.splits)
        show thesis
        proof (cases "map_of nets (pp_network pp)")
          case None
          show thesis
            by (rule early [of lk])
               (use r' None lk_shape in \<open>auto simp: after_idempotency_def rejected_def\<close>)
        next
          case (Some nw)
          note nw = Some
          show thesis
          proof (cases "verify_dispatch e nets s pp rc (resource_url req) nw")
            case (Inl err)
            show thesis
              by (rule early [of lk])
                 (use r' nw Inl lk_shape pp in \<open>auto simp: after_idempotency_def lk_def\<close>)
          next
            case (Inr v)
            show thesis
            proof (cases v)
              case (Invalid why)
              show thesis
                by (rule early [of lk])
                   (use r' nw Inr Invalid lk_shape pp in
                     \<open>auto simp: after_idempotency_def Let_def lk_def\<close>)
            next
              case (Valid payer)
              show thesis
                by (rule verified [OF rc hd pp miss nw])
                   (use r' nw Inr Valid in \<open>simp_all add: after_idempotency_def lk_def\<close>)
            qed
          qed
        qed
      qed
    qed
  qed
qed

lemma settlements_append [simp]: "settlements (xs @ ys) = settlements xs + settlements ys"
  by (simp add: settlements_def)

lemma credits_consumed_append [simp]:
  "credits_consumed (xs @ ys) = credits_consumed xs + credits_consumed ys"
  by (simp add: credits_consumed_def)

lemma early_phases_count:
  "\<forall>ev \<in> set lg. phase ev \<le> 1 \<Longrightarrow> settlements lg = 0 \<and> credits_consumed lg = 0"
proof (induction lg)
  case Nil
  then show ?case by (simp add: settlements_def credits_consumed_def)
next
  case (Cons ev lg)
  then show ?case by (cases ev) (simp_all add: settlements_def credits_consumed_def)
qed

text \<open>The log, the outcome and the headers of the middleware after a valid verification.\<close>

lemma after_verification_log:
  assumes r: "r = after_verification e nets s log pp rc rk res nw payer pid"
    and lg: "\<forall>ev \<in> set log. phase ev \<le> 1" "sorted_wrt (<) (map phase log)"
  shows "sorted_wrt (<) (map phase (rs_log r)) \<and>
         (rs_outcome r = Next \<longrightarrow>
            (settlements (rs_log r) = 1 \<and> credits_consumed (rs_log r) = 0 \<and>
             (\<exists>h. rs_headers r = [(''PAYMENT-RESPONSE'', ReceiptHeader h)])) \<or>
            (settlements (rs_log r) = 0 \<and> credits_consumed (rs_log r) = 1 \<and>
             (\<forall>ev \<in> set (rs_log r). phase ev < 4) \<and>
             rs_headers r = [(''X-x402-Credit'', Literal ''consumed'')])) \<and>
         (\<forall>i. CacheIdempotency i \<in> set (rs_log r) \<longrightarrow>
            pid = Some i \<and>
            (\<exists>pre post p. rs_log r = pre @ Settle p True # post \<and> CacheIdempotency i \<in> set post)) \<and>
         (\<exists>tl. rs_log r = log @ tl)"
  using r
proof (cases rule: after_verification_cases)
  case (credit s1)
  from early_phases_count [OF lg(1)] lg credit(2) show ?thesis
    by (fastforce simp: sorted_wrt_append settlements_def credits_consumed_def)
next
  case (settle l1 out hs s2 l2)
  note cl = credit_check_log [OF settle(1)]
  note sl = settlement_block_log [OF settle(2)]
  from cl have l1: "sorted_wrt (<) (map phase l1)" "\<forall>ev \<in> set l1. phase ev = 2 \<or> phase ev = 3"
    "settlements l1 = 0" "credits_consumed l1 = 0" "\<forall>i. CacheIdempotency i \<notin> set l1"
    by (auto simp: settlements_def credits_consumed_def)
  from sl have l2: "sorted_wrt (<) (map phase l2)" "\<forall>ev \<in> set l2. 4 \<le> phase ev" by blast+
  have log: "rs_log r = log @ l1 @ l2" using settle(3) by simp
  have sorted: "sorted_wrt (<) (map phase (rs_log r))"
    unfolding log using lg l1(1,2) l2 by (fastforce simp: sorted_wrt_append)
  have counts: "settlements (rs_log r) = settlements l2" "credits_consumed (rs_log r) = 0"
    unfolding log using early_phases_count [OF lg(1)] l1(3,4) sl by simp_all
  have next_case: "rs_outcome r = Next \<longrightarrow>
          settlements (rs_log r) = 1 \<and> (\<exists>h. rs_headers r = [(''PAYMENT-RESPONSE'', ReceiptHeader h)])"
  proof
    assume n: "rs_outcome r = Next"
    have "out = None"
    proof (cases out)
      case None
      then show ?thesis .
    next
      case (Some response)
      from Some settle(2) have "response \<noteq> Next"
      proof (cases "nonceKey_of e nw pp")
        case None
        with Some settle(2) show ?thesis
          by (auto simp: settlement_block_untracked rejected_def split: sum.splits)
      next
        case (Some k)
        with \<open>out = Some response\<close> settle(2) show ?thesis
          by (auto simp: settlement_block_tracked rejected_def Let_def split: sum.splits if_splits)
      qed
      with n settle(3) Some show ?thesis by simp
    qed
    with sl counts settle(3) show
      "settlements (rs_log r) = 1 \<and> (\<exists>h. rs_headers r = [(''PAYMENT-RESPONSE'', ReceiptHeader h)])"
      by auto
  qed
  have cache: "\<forall>i. CacheIdempotency i \<in> set (rs_log r) \<longrightarrow>
            pid = Some i \<and>
            (\<exists>pre post p. rs_log r = pre @ Settle p True # post \<and> CacheIdempotency i \<in> set post)"
  proof (intro allI impI)
    fix i
    assume "CacheIdempotency i \<in> set (rs_log r)"
    with log lg(1) l1(5) have m: "CacheIdempotency i \<in> set l2" by auto
    with sl have p: "pid = Some i" by blast
    have "\<exists>pre post p. l2 = pre @ Settle p True # post \<and> CacheIdempotency i \<in> set post"
    proof (cases "nonceKey_of e nw pp")
      case None
      with settle(2) m show ?thesis
        by (auto simp: settlement_block_untracked split: sum.splits option.splits
            intro: exI [of _ "[]"])
    next
      case (Some k)
      with settle(2) m show ?thesis
        by (auto simp: settlement_block_tracked Let_def split: sum.splits option.splits if_splits
            intro: exI [of _ "[ReserveNonce k True]"])
    qed
    then obtain pre post q where "l2 = pre @ Settle q True # post" "CacheIdempotency i \<in> set post"
      by blast
    then have "rs_log r = (log @ l1 @ pre) @ Settle q True # post" using log by simp
    with p \<open>CacheIdempotency i \<in> set post\<close> show
      "pid = Some i \<and>
       (\<exists>pre post p. rs_log r = pre @ Settle p True # post \<and> CacheIdempotency i \<in> set post)"
      by blast
  qed
  from sorted next_case counts cache log show ?thesis by simp
qed


lemma decrementCredit_other_key:
  "k \<noteq> credit_key payer route \<Longrightarrow> snd (decrementCredit throws s payer route) k = s k"
  by (auto simp: decrementCredit_def decrement_script_def redis_DECR_def
      split: option.splits sum.splits prod.splits rvalue.splits if_splits)

lemma credit_check_store:
  assumes "credit_check e s rc rk payer = (c, s1, l1)"
  shows "s1 (IDEMPOTENCY_PREFIX @ i) = s (IDEMPOTENCY_PREFIX @ i)"
proof (cases "s1 = s")
  case True
  then show ?thesis by simp
next
  case False
  with assms have "s1 = snd (decrementCredit (store_throws e DecrementCredit) s payer rk)"
    by (auto simp: credit_check_def Let_def split: if_splits prod.splits)
  then show ?thesis by (simp add: decrementCredit_other_key)
qed

text \<open>
  The settlement block leaves the idempotency records as they were, but for the one it
  writes; that one holds the receipt the block emits.
\<close>

lemma settlement_block_store:
  assumes "settlement_block e nets s pp rc rk res nw payer pid = (out, hs, s2, l2)"
  shows "(CacheIdempotency i \<notin> set l2 \<longrightarrow> s2 (IDEMPOTENCY_PREFIX @ i) = s (IDEMPOTENCY_PREFIX @ i)) \<and>
         (CacheIdempotency i \<in> set l2 \<and> \<not> store_throws e SetIdempotencyCache \<longrightarrow>
            (\<exists>h now. hs = [(''PAYMENT-RESPONSE'', ReceiptHeader h)] \<and>
               s2 (IDEMPOTENCY_PREFIX @ i) =
                 Some (VIdem \<lparr>id_timestamp = now,
                         id_response = Some \<lparr>ir_paymentResponseHeader = Some h,
                                              ir_settlement = Some h\<rparr>\<rparr>, Some 3600)))"
proof (cases "nonceKey_of e nw pp")
  case None
  from assms show ?thesis
    unfolding settlement_block_untracked [OF None]
    by (auto simp: setIdempotencyCache_def redis_SET_EX_def IDEMPOTENCY_TTL_def
        split: sum.splits option.splits)
next
  case (Some k)
  from assms show ?thesis
    unfolding settlement_block_tracked [OF Some]
    by (auto simp: setIdempotencyCache_def redis_SET_EX_def IDEMPOTENCY_TTL_def Let_def
        setNonceConfirmed_def deleteNonce_def redis_DEL_def
        split: sum.splits option.splits if_splits)
qed

lemma after_verification_store:
  assumes r: "r = after_verification e nets s log pp rc rk res nw payer pid"
    and lg: "\<forall>ev \<in> set log. phase ev \<le> 1"
  shows "(rs_store r (IDEMPOTENCY_PREFIX @ i) \<noteq> s (IDEMPOTENCY_PREFIX @ i) \<longrightarrow>
            CacheIdempotency i \<in> set (rs_log r)) \<and>
         (CacheIdempotency i \<in> set (rs_log r) \<and> \<not> store_throws e SetIdempotencyCache \<longrightarrow>
            (\<exists>h now. rs_headers r = [(''PAYMENT-RESPONSE'', ReceiptHeader h)] \<and>
               rs_store r (IDEMPOTENCY_PREFIX @ i) =
                 Some (VIdem \<lparr>id_timestamp = now,
                         id_response = Some \<lparr>ir_paymentResponseHeader = Some h,
                                              ir_settlement = Some h\<rparr>\<rparr>, Some 3600)))"
  using r
proof (cases rule: after_verification_cases)
  case (credit s1)
  from credit_check_store [OF credit(1), of i] credit(2) lg show ?thesis by auto
next
  case (settle l1 out hs s2 l2)
  from credit_check_log [OF settle(1)] have l1: "\<forall>j. CacheIdempotency j \<notin> set l1" by auto
  from lg have l0: "\<forall>j. CacheIdempotency j \<notin> set log" by auto
  from settlement_block_store [OF settle(2), of i] settle(3) l0 l1 show ?thesis by auto
qed

section \<open>Amount scaling\<close>






section \<open>The local EVM verifier\<close>











section \<open>Reserving a nonce\<close>




section \<open>The nonce record around settlement\<close>

text \<open>
  Claim C3, amended. Every request that reaches the settlement engine without consuming a
  credit and whose nonce is tracked (the authorization nonce on the local EVM path, the
  hash of the transaction on the SVM path) has reserved a pending record before
  settlement is invoked: the reservation did not throw and found no record. When settlement
  succeeds the block continues, the confirming write follows settlement, and the record
  is confirmed with a time to live of 604800 seconds unless that write throws, which
  leaves the pending record. When settlement fails the release follows, the record is
  deleted unless the deletion throws, and the request is answered 402 with the
  settlement error as its reason.
\<close>

theorem settlement_nonce_lifecycle:
  assumes "nonceKey_of e nw pp = Some k"
    and "settlement_block e nets s pp rc rk res nw payer pid = (out, hs, s', log)"
    and "Settle p ok \<in> set log"
  shows "\<not> store_throws e SetNoncePending \<and> s (NONCE_PREFIX @ k) = None \<and>
         (case settle_dispatch e nets pp rc res nw of
            Inr st \<Rightarrow>
              ok \<and> out = None \<and>
              log = [ReserveNonce k True, Settle (pathLabel nw) True, ConfirmNonce k] @
                    (case pid of None \<Rightarrow> [] | Some i \<Rightarrow> [CacheIdempotency i]) \<and>
              (\<exists>r. s' (NONCE_PREFIX @ k) =
                     Some (VNonce r, Some (if store_throws e SetNonceConfirmed then 3600 else 604800)) \<and>
                   nr_status r = (if store_throws e SetNonceConfirmed then ''pending'' else ''confirmed''))
          | Inl err \<Rightarrow>
              \<not> ok \<and>
              out = Some (Respond 402 \<lparr>rb_challenge = None, rb_error = ''Payment settlement failed'',
                                       rb_message = None, rb_reason = Some (Text err)\<rparr>) \<and>
              log = [ReserveNonce k True, Settle (pathLabel nw) False, ReleaseNonce k] \<and>
              (if store_throws e DeleteNonce
               then \<exists>r. s' (NONCE_PREFIX @ k) = Some (VNonce r, Some 3600) \<and> nr_status r = ''pending''
               else s' (NONCE_PREFIX @ k) = None))"
proof -
  note sb = settlement_block_tracked [OF assms(1), of nets s rc rk res payer pid]
  have reserved: "\<not> (store_throws e SetNoncePending \<or> s (NONCE_PREFIX @ k) \<noteq> None)"
  proof
    assume "store_throws e SetNoncePending \<or> s (NONCE_PREFIX @ k) \<noteq> None"
    with sb assms(2) have "log = [ReserveNonce k False]" by (simp split: if_splits)
    with assms(3) show False by simp
  qed
  from reserved have r1: "\<not> store_throws e SetNoncePending" and r2: "s (NONCE_PREFIX @ k) = None"
    by blast+
  show ?thesis
  proof (cases "settle_dispatch e nets pp rc res nw")
    case (Inl err)
    with sb assms(2) r1 r2 have
      o: "out = Some (rejected ''Payment settlement failed'' (Text err))"
      and l: "log = [ReserveNonce k True, Settle (pathLabel nw) False, ReleaseNonce k]"
      and st: "s' = deleteNonce (store_throws e DeleteNonce)
                 (s(NONCE_PREFIX @ k \<mapsto>
                       (VNonce (pending_record (date_now e SetNoncePending)
                          \<lparr>nm_network = pp_network pp, nm_payer = payer, nm_route = rk,
                           nm_vm = vm_label nw\<rparr>), Some 3600))) k"
      by (simp_all add: Let_def)
    from l assms(3) have "\<not> ok" by auto
    moreover have "if store_throws e DeleteNonce
               then \<exists>r. s' (NONCE_PREFIX @ k) = Some (VNonce r, Some 3600) \<and> nr_status r = ''pending''
               else s' (NONCE_PREFIX @ k) = None"
      unfolding st by (simp add: deleteNonce_at_key pending_record_def)
    ultimately show ?thesis using Inl o l r1 r2 by (simp add: rejected_def)
  next
    case (Inr st)
    with sb assms(2) r1 r2 have
      o: "out = None"
      and l: "log = [ReserveNonce k True, Settle (pathLabel nw) True, ConfirmNonce k] @
                    (case pid of None \<Rightarrow> [] | Some i \<Rightarrow> [CacheIdempotency i])"
      and s': "s' = (case pid of
                 None \<Rightarrow> setNonceConfirmed (store_throws e SetNonceConfirmed)
                               (date_now e SetNonceConfirmed)
                               (s(NONCE_PREFIX @ k \<mapsto>
                       (VNonce (pending_record (date_now e SetNoncePending)
                          \<lparr>nm_network = pp_network pp, nm_payer = payer, nm_route = rk,
                           nm_vm = vm_label nw\<rparr>), Some 3600))) k
                               \<lparr>sd_txHash = st_txHash st, sd_network = st_network st,
                                sd_blockNumber = st_blockNumber st,
                                sd_payer = or_unknown (js_or (st_payer st) (Some payer)),
                                sd_route = rk, sd_vm = vm_label nw\<rparr>
               | Some i \<Rightarrow> setIdempotencyCache (store_throws e SetIdempotencyCache)
                              (date_now e SetIdempotencyCache)
                              (setNonceConfirmed (store_throws e SetNonceConfirmed)
                               (date_now e SetNonceConfirmed)
                               (s(NONCE_PREFIX @ k \<mapsto>
                       (VNonce (pending_record (date_now e SetNoncePending)
                          \<lparr>nm_network = pp_network pp, nm_payer = payer, nm_route = rk,
                           nm_vm = vm_label nw\<rparr>), Some 3600))) k
                               \<lparr>sd_txHash = st_txHash st, sd_network = st_network st,
                                sd_blockNumber = st_blockNumber st,
                                sd_payer = or_unknown (js_or (st_payer st) (Some payer)),
                                sd_route = rk, sd_vm = vm_label nw\<rparr>) i
                              \<lparr>ir_paymentResponseHeader = Some (receipt_of st),
                               ir_settlement = Some (receipt_of st)\<rparr>)"
      by (simp_all add: Let_def)
    from l assms(3) have "ok" by (auto split: option.splits)
    moreover have "\<exists>r. s' (NONCE_PREFIX @ k) =
                     Some (VNonce r, Some (if store_throws e SetNonceConfirmed then 3600 else 604800)) \<and>
                   nr_status r = (if store_throws e SetNonceConfirmed then ''pending'' else ''confirmed'')"
      unfolding s'
      by (cases pid)
         (simp_all add: setIdempotencyCache_other_key setNonceConfirmed_at_key pending_record_def
            confirmed_record_def)
    ultimately show ?thesis using Inr o l r1 r2 by simp
  qed
qed


theorem settlement_nonce_lifecycle_witness:
  "nonceKey_of env0 BASE envelope_base = Some ''0x01'' \<and>
   Settle ''EVM'' True \<in> set (snd (snd (snd
     (settlement_block env0 nets0 Map.empty envelope_base myapi ''myapi''
        ''https://gw.example/v1/myapi/x'' BASE alice None)))) \<and>
   (\<exists>r. fst (snd (snd
           (settlement_block env0 nets0 Map.empty envelope_base myapi ''myapi''
              ''https://gw.example/v1/myapi/x'' BASE alice None))) (NONCE_PREFIX @ ''0x01'') =
          Some (VNonce r, Some 604800) \<and>
        nr_status r = ''confirmed'')"
proof -
  let ?X = "settlement_block env0 nets0 Map.empty envelope_base myapi ''myapi''
              ''https://gw.example/v1/myapi/x'' BASE alice None"
  have k: "nonceKey_of env0 BASE envelope_base = Some ''0x01''" by code_simp
  have x: "?X = (fst ?X, fst (snd ?X), fst (snd (snd ?X)), snd (snd (snd ?X)))" by simp
  have m: "Settle ''EVM'' True \<in> set (snd (snd (snd ?X)))" by code_simp
  have d: "settle_dispatch env0 nets0 envelope_base myapi ''https://gw.example/v1/myapi/x'' BASE =
             Inr \<lparr>st_txHash = ''0xtx'', st_network = ''eip155:8453'', st_blockNumber = Some 100,
                  st_payer = None, st_facilitator = None\<rparr>" by code_simp
  have c: "\<not> store_throws env0 SetNonceConfirmed" by (simp add: env0_def)
  from settlement_nonce_lifecycle [OF k x m] d c
  have "\<exists>r. fst (snd (snd ?X)) (NONCE_PREFIX @ ''0x01'') = Some (VNonce r, Some 604800) \<and>
            nr_status r = ''confirmed''" by simp
  with k m show ?thesis by blast
qed

text \<open>
  Claim C3 as stated fails for a request through the facilitator: it reaches settlement and
  proceeds without any nonce record being reserved or confirmed. It also fails when the
  confirming write throws: the request proceeds and the record stays pending.
\<close>

theorem settlement_nonce_lifecycle_counterexample:
  "rs_outcome (x402PaymentMiddleware env0 routes0 nets0 ''myapi'' req_mega Map.empty) = Next \<and>
   rs_log (x402PaymentMiddleware env0 routes0 nets0 ''myapi'' req_mega Map.empty) =
     [Verify ''facilitator'', ReadCredit (credit_key alice ''myapi''), Settle ''facilitator'' True] \<and>
   rs_store (x402PaymentMiddleware env0 routes0 nets0 ''myapi'' req_mega Map.empty)
     (NONCE_PREFIX @ ''0x01'') = None \<and>
   rs_log (x402PaymentMiddleware env_confirm_fails routes0 nets0 ''myapi'' req0 Map.empty) =
     [Verify ''EVM'', ReadCredit (credit_key alice ''myapi''), ReserveNonce ''0x01'' True,
      Settle ''EVM'' True, ConfirmNonce ''0x01''] \<and>
   rs_store (x402PaymentMiddleware env_confirm_fails routes0 nets0 ''myapi'' req0 Map.empty)
     (NONCE_PREFIX @ ''0x01'') = Some (VNonce (pending_record 1700000000000 meta0), Some 3600)"
proof -
  have "rs_outcome (x402PaymentMiddleware env0 routes0 nets0 ''myapi'' req_mega Map.empty) = Next"
    by code_simp
  moreover have "rs_log (x402PaymentMiddleware env0 routes0 nets0 ''myapi'' req_mega Map.empty) =
     [Verify ''facilitator'', ReadCredit (credit_key alice ''myapi''), Settle ''facilitator'' True]"
    by code_simp
  moreover have "rs_store (x402PaymentMiddleware env0 routes0 nets0 ''myapi'' req_mega Map.empty)
     (NONCE_PREFIX @ ''0x01'') = None"
    by code_simp
  moreover have "rs_log (x402PaymentMiddleware env_confirm_fails routes0 nets0 ''myapi'' req0 Map.empty) =
     [Verify ''EVM'', ReadCredit (credit_key alice ''myapi''), ReserveNonce ''0x01'' True,
      Settle ''EVM'' True, ConfirmNonce ''0x01'']"
    by code_simp
  moreover have "rs_store (x402PaymentMiddleware env_confirm_fails routes0 nets0 ''myapi'' req0 Map.empty)
     (NONCE_PREFIX @ ''0x01'') = Some (VNonce (pending_record 1700000000000 meta0), Some 3600)"
    by code_simp
  ultimately show ?thesis by blast
qed

section \<open>One settlement or one credit\<close>

text \<open>
  Claim C4, amended. A paid request that ends with the proceed signal either was answered
  from the idempotency cache (its log is the lookup alone), or exactly one settlement
  succeeded and no credit was consumed and the response carries the settlement receipt, or
  exactly one credit was consumed and nothing was settled: then no event of the nonce
  reservation, the settlement or the steps after it is in the log, and the response carries
  \<open>X-x402-Credit: consumed\<close> and no receipt. The events of a run are in the order of the
  pipeline, so a credit is consumed after verification and before any nonce reservation.
\<close>

theorem paid_by_settlement_or_credit:
  assumes "r = x402PaymentMiddleware e R nets k req s"
    and "rs_outcome r = Next"
  shows "((\<exists>i. rs_log r = [LookupIdempotency i]) \<or>
          (settlements (rs_log r) = 1 \<and> credits_consumed (rs_log r) = 0 \<and>
           (\<exists>h. rs_headers r = [(''PAYMENT-RESPONSE'', ReceiptHeader h)])) \<or>
          (settlements (rs_log r) = 0 \<and> credits_consumed (rs_log r) = 1 \<and>
           (\<forall>ev \<in> set (rs_log r). phase ev < 4) \<and>
           rs_headers r = [(''X-x402-Credit'', Literal ''consumed'')])) \<and>
         sorted_wrt (<) (map phase (rs_log r)) \<and>
         (\<forall>key c. ConsumeCredit key c \<in> set (rs_log r) \<longrightarrow> (\<exists>p. Verify p \<in> set (rs_log r)))"
  using assms(1)
proof (cases rule: middleware_cases)
  case (early lk)
  with assms(2) show ?thesis by simp
next
  case (hit rc pp paymentId cached)
  from hit(6) have "rs_log r = [LookupIdempotency paymentId]" by simp
  then show ?thesis by simp
next
  case (verified rc pp nw payer)
  define lg where "lg = (case extractPaymentIdentifier pp of
                 None \<Rightarrow> []
               | Some i \<Rightarrow> [LookupIdempotency i]) @ [Verify (pathLabel nw)]"
  have lg: "\<forall>ev \<in> set lg. phase ev \<le> 1" "sorted_wrt (<) (map phase lg)"
    by (auto simp: lg_def sorted_wrt_append split: option.splits)
  have r: "r = after_verification e nets s lg pp rc k (resource_url req) nw payer
                 (extractPaymentIdentifier pp)"
    using verified(7) by (simp add: lg_def)
  note a = after_verification_log [OF r lg]
  from a [THEN conjunct2, THEN conjunct2, THEN conjunct2]
  obtain tl where tl: "rs_log r = lg @ tl" by blast
  have v: "Verify (pathLabel nw) \<in> set (rs_log r)" unfolding tl by (simp add: lg_def)
  from a [THEN conjunct2, THEN conjunct1] assms(2)
  have once: "(settlements (rs_log r) = 1 \<and> credits_consumed (rs_log r) = 0 \<and>
           (\<exists>h. rs_headers r = [(''PAYMENT-RESPONSE'', ReceiptHeader h)])) \<or>
          (settlements (rs_log r) = 0 \<and> credits_consumed (rs_log r) = 1 \<and>
           (\<forall>ev \<in> set (rs_log r). phase ev < 4) \<and>
           rs_headers r = [(''X-x402-Credit'', Literal ''consumed'')])" by simp
  from v have "\<forall>key c. ConsumeCredit key c \<in> set (rs_log r) \<longrightarrow> (\<exists>p. Verify p \<in> set (rs_log r))"
    by blast
  with once a [THEN conjunct1] show ?thesis by simp
qed

theorem paid_by_settlement_or_credit_witness:
  "rs_outcome (x402PaymentMiddleware env0 routes0 nets0 ''myapi'' req0 Map.empty) = Next \<and>
   settlements (rs_log (x402PaymentMiddleware env0 routes0 nets0 ''myapi'' req0 Map.empty)) = 1 \<and>
   credits_consumed (rs_log (x402PaymentMiddleware env0 routes0 nets0 ''myapi'' req0 Map.empty)) = 0 \<and>
   rs_outcome (x402PaymentMiddleware env0 routes0 nets0 ''myapi'' req0 store_one_credit) = Next \<and>
   settlements (rs_log (x402PaymentMiddleware env0 routes0 nets0 ''myapi'' req0 store_one_credit)) = 0 \<and>
   credits_consumed (rs_log (x402PaymentMiddleware env0 routes0 nets0 ''myapi'' req0 store_one_credit)) = 1 \<and>
   rs_headers (x402PaymentMiddleware env0 routes0 nets0 ''myapi'' req0 store_one_credit) =
     [(''X-x402-Credit'', Literal ''consumed'')] \<and>
   sorted_wrt (<) (map phase
     (rs_log (x402PaymentMiddleware env0 routes0 nets0 ''myapi'' req0 store_one_credit)))"
proof -
  let ?r1 = "x402PaymentMiddleware env0 routes0 nets0 ''myapi'' req0 Map.empty"
  let ?r2 = "x402PaymentMiddleware env0 routes0 nets0 ''myapi'' req0 store_one_credit"
  have n1: "rs_outcome ?r1 = Next" by code_simp
  have n2: "rs_outcome ?r2 = Next" by code_simp
  have a1: "settlements (rs_log ?r1) = 1" by code_simp
  have b1: "credits_consumed (rs_log ?r1) = 0" by code_simp
  have a2: "settlements (rs_log ?r2) = 0" by code_simp
  have b2: "credits_consumed (rs_log ?r2) = 1" by code_simp
  have l2: "rs_log ?r2 \<noteq> [LookupIdempotency i]" for i by code_simp
  note t = paid_by_settlement_or_credit [OF refl n2]
  from t [THEN conjunct2, THEN conjunct1] have s2: "sorted_wrt (<) (map phase (rs_log ?r2))" .
  from t [THEN conjunct1] a2 l2
  have h2: "rs_headers ?r2 = [(''X-x402-Credit'', Literal ''consumed'')]" by simp
  from n1 a1 b1 n2 a2 b2 h2 s2 show ?thesis by (intro conjI)
qed

text \<open>
  Claim C4 as stated fails for a request answered from the idempotency cache: it proceeds
  with neither a settlement nor a consumed credit.
\<close>

theorem paid_by_settlement_or_credit_counterexample:
  "rs_outcome (x402PaymentMiddleware env0 routes0 nets0 ''myapi'' req_replay store_cached) = Next \<and>
   rs_log (x402PaymentMiddleware env0 routes0 nets0 ''myapi'' req_replay store_cached) =
     [LookupIdempotency paymentId0] \<and>
   settlements (rs_log (x402PaymentMiddleware env0 routes0 nets0 ''myapi'' req_replay store_cached)) = 0 \<and>
   credits_consumed (rs_log (x402PaymentMiddleware env0 routes0 nets0 ''myapi'' req_replay store_cached)) = 0"
proof -
  let ?r = "x402PaymentMiddleware env0 routes0 nets0 ''myapi'' req_replay store_cached"
  have a: "rs_outcome ?r = Next" by code_simp
  have b: "rs_log ?r = [LookupIdempotency paymentId0]" by code_simp
  have c: "settlements (rs_log ?r) = 0" by code_simp
  have d: "credits_consumed (rs_log ?r) = 0" by code_simp
  from a b c d show ?thesis by (intro conjI)
qed

section \<open>The idempotency cache\<close>

text \<open>
  Claim C6. The events of a run are in the order of the pipeline: the idempotency lookup is
  the first event whenever there is one, and when the envelope carries a payment identifier
  every verification has the lookup of that identifier before it. An idempotency record is
  written only by the caching step, which has a successful settlement before it in the log,
  and it holds the receipt the response carries, with a time to live of 3600 seconds. When
  the lookup hits, the request proceeds with the cached receipt header, the store unchanged
  and no settlement.
\<close>

theorem idempotency_lookup_first_write_last:
  assumes "r = x402PaymentMiddleware e R nets k req s"
  shows "sorted_wrt (<) (map phase (rs_log r)) \<and>
         (\<forall>i. LookupIdempotency i \<in> set (rs_log r) \<longrightarrow> (\<exists>tl. rs_log r = LookupIdempotency i # tl)) \<and>
         (\<forall>p pp i. Verify p \<in> set (rs_log r) \<and> decode e (the (payment_header req)) = Some pp \<and>
            extractPaymentIdentifier pp = Some i \<longrightarrow>
            (\<exists>tl. rs_log r = LookupIdempotency i # tl)) \<and>
         (\<forall>i. CacheIdempotency i \<in> set (rs_log r) \<longrightarrow>
            (\<exists>pre post p. rs_log r = pre @ Settle p True # post \<and> CacheIdempotency i \<in> set post)) \<and>
         (\<forall>i. rs_store r (IDEMPOTENCY_PREFIX @ i) \<noteq> s (IDEMPOTENCY_PREFIX @ i) \<longrightarrow>
            CacheIdempotency i \<in> set (rs_log r)) \<and>
         (\<forall>i. CacheIdempotency i \<in> set (rs_log r) \<and> \<not> store_throws e SetIdempotencyCache \<longrightarrow>
            (\<exists>h now. rs_headers r = [(''PAYMENT-RESPONSE'', ReceiptHeader h)] \<and>
               rs_store r (IDEMPOTENCY_PREFIX @ i) =
                 Some (VIdem \<lparr>id_timestamp = now,
                         id_response = Some \<lparr>ir_paymentResponseHeader = Some h,
                                              ir_settlement = Some h\<rparr>\<rparr>, Some 3600))) \<and>
         (\<forall>rc pp i cached.
            R k = Some rc \<and> truthy (payment_header req) \<and>
            decode e (the (payment_header req)) = Some pp \<and> extractPaymentIdentifier pp = Some i \<and>
            getIdempotencyCache (store_throws e GetIdempotencyCache) s i = Some cached \<longrightarrow>
            rs_outcome r = Next \<and>
            rs_headers r = (case cached_header cached of
                              None \<Rightarrow> []
                            | Some h \<Rightarrow> [(''PAYMENT-RESPONSE'', ReceiptHeader h)]) \<and>
            rs_store r = s \<and> rs_log r = [LookupIdempotency i] \<and> settlements (rs_log r) = 0)"
  (is "?sorted \<and> ?first \<and> ?before \<and> ?written \<and> ?store \<and> ?holds \<and> ?hit")
proof -
  have hit: ?hit
  proof (intro allI impI)
    fix rc pp i cached
    assume h: "R k = Some rc \<and> truthy (payment_header req) \<and>
            decode e (the (payment_header req)) = Some pp \<and> extractPaymentIdentifier pp = Some i \<and>
            getIdempotencyCache (store_throws e GetIdempotencyCache) s i = Some cached"
    then have "r = \<lparr>rs_outcome = Next,
            rs_headers = (case cached_header cached of
                            None \<Rightarrow> []
                          | Some h \<Rightarrow> [(''PAYMENT-RESPONSE'', ReceiptHeader h)]),
            rs_store = s, rs_log = [LookupIdempotency i], rs_finish = None\<rparr>"
      using assms by (simp add: x402PaymentMiddleware_def after_decode_def)
    then show "rs_outcome r = Next \<and>
            rs_headers r = (case cached_header cached of
                              None \<Rightarrow> []
                            | Some h \<Rightarrow> [(''PAYMENT-RESPONSE'', ReceiptHeader h)]) \<and>
            rs_store r = s \<and> rs_log r = [LookupIdempotency i] \<and> settlements (rs_log r) = 0"
      by (simp add: settlements_def)
  qed
  have rest: "?sorted \<and> ?first \<and> ?before \<and> ?written \<and> ?store \<and> ?holds"
    using assms
  proof (cases rule: middleware_cases)
    case (early lk)
    from early(5) have "rs_log r = lk \<or> (\<exists>p. rs_log r = lk @ [Verify p])" by blast
    with early(4) have shape:
      "rs_log r = [] \<or> (\<exists>i. rs_log r = [LookupIdempotency i]) \<or> (\<exists>p. rs_log r = [Verify p]) \<or>
       (\<exists>i p. rs_log r = [LookupIdempotency i, Verify p])" by auto
    from shape have sorted: ?sorted by auto
    from shape have first: ?first by auto
    have before: ?before
    proof (intro allI impI)
      fix p pp i
      assume h: "Verify p \<in> set (rs_log r) \<and> decode e (the (payment_header req)) = Some pp \<and>
            extractPaymentIdentifier pp = Some i"
      with early(4) have "rs_log r \<noteq> lk" by auto
      with early(5) obtain q pp' where
        "rs_log r = lk @ [Verify q]" "decode e (the (payment_header req)) = Some pp'"
        "lk = (case extractPaymentIdentifier pp' of None \<Rightarrow> [] | Some i \<Rightarrow> [LookupIdempotency i])"
        by blast
      with h show "\<exists>tl. rs_log r = LookupIdempotency i # tl" by simp
    qed
    from shape have no_cache: "\<forall>i. CacheIdempotency i \<notin> set (rs_log r)" by auto
    then have written: ?written and holds: ?holds by simp_all
    from early(2) have store: ?store by simp
    from sorted first before written store holds show ?thesis by (intro conjI)
  next
    case (hit rc pp paymentId cached)
    from hit(6) have l: "rs_log r = [LookupIdempotency paymentId]" and st: "rs_store r = s"
      by simp_all
    from l have sorted: ?sorted and first: ?first and before: ?before and written: ?written
      and holds: ?holds by simp_all
    from st have store: ?store by simp
    from sorted first before written store holds show ?thesis by (intro conjI)
  next
    case (verified rc pp nw payer)
    define lg where "lg = (case extractPaymentIdentifier pp of
                 None \<Rightarrow> []
               | Some i \<Rightarrow> [LookupIdempotency i]) @ [Verify (pathLabel nw)]"
    have lg: "\<forall>ev \<in> set lg. phase ev \<le> 1" "sorted_wrt (<) (map phase lg)"
      by (auto simp: lg_def sorted_wrt_append split: option.splits)
    have r: "r = after_verification e nets s lg pp rc k (resource_url req) nw payer
                   (extractPaymentIdentifier pp)"
      using verified(7) by (simp add: lg_def)
    note a = after_verification_log [OF r lg]
    from a [THEN conjunct2, THEN conjunct2, THEN conjunct2]
    obtain tl where tl: "rs_log r = lg @ tl" by blast
    from a [THEN conjunct1] have sorted: ?sorted .
    have v: "Verify (pathLabel nw) \<in> set lg" by (simp add: lg_def)
    from sorted have "\<forall>x \<in> set lg. \<forall>y \<in> set tl. phase x < phase y"
      unfolding tl by (simp add: sorted_wrt_append)
    with v have later: "\<forall>ev \<in> set tl. 1 < phase ev" by fastforce
    have first: ?first
    proof (intro allI impI)
      fix i
      assume "LookupIdempotency i \<in> set (rs_log r)"
      with tl later have "LookupIdempotency i \<in> set lg" by auto
      then have "extractPaymentIdentifier pp = Some i"
        by (cases "extractPaymentIdentifier pp") (simp_all add: lg_def)
      then show "\<exists>tl. rs_log r = LookupIdempotency i # tl"
        unfolding tl by (simp add: lg_def)
    qed
    have before: ?before
    proof (intro allI impI)
      fix p pp' i
      assume "Verify p \<in> set (rs_log r) \<and> decode e (the (payment_header req)) = Some pp' \<and>
            extractPaymentIdentifier pp' = Some i"
      with verified(3) have "extractPaymentIdentifier pp = Some i" by simp
      then show "\<exists>tl. rs_log r = LookupIdempotency i # tl"
        unfolding tl by (simp add: lg_def)
    qed
    from a [THEN conjunct2, THEN conjunct2, THEN conjunct1] have written: ?written by blast
    have store: ?store and holds: ?holds
      using after_verification_store [OF r lg(1)] by simp_all
    from sorted first before written store holds show ?thesis by (intro conjI)
  qed
  note c1 = rest [THEN conjunct1]
  note c2 = rest [THEN conjunct2, THEN conjunct1]
  note c3 = rest [THEN conjunct2, THEN conjunct2, THEN conjunct1]
  note c4 = rest [THEN conjunct2, THEN conjunct2, THEN conjunct2, THEN conjunct1]
  note c5 = rest [THEN conjunct2, THEN conjunct2, THEN conjunct2, THEN conjunct2, THEN conjunct1]
  note c6 = rest [THEN conjunct2, THEN conjunct2, THEN conjunct2, THEN conjunct2, THEN conjunct2]
  show ?thesis by (intro conjI) (rule c1 c2 c3 c4 c5 c6 hit)+
qed

theorem idempotency_lookup_first_write_last_witness:
  "rs_log (x402PaymentMiddleware env0 routes0 nets0 ''myapi'' req_paid Map.empty) =
     [LookupIdempotency paymentId0, Verify ''EVM'', ReadCredit (credit_key alice ''myapi''),
      ReserveNonce ''0x01'' True, Settle ''EVM'' True, ConfirmNonce ''0x01'',
      CacheIdempotency paymentId0] \<and>
   sorted_wrt (<) (map phase
     (rs_log (x402PaymentMiddleware env0 routes0 nets0 ''myapi'' req_paid Map.empty))) \<and>
   (\<exists>pre post p.
      rs_log (x402PaymentMiddleware env0 routes0 nets0 ''myapi'' req_paid Map.empty) =
        pre @ Settle p True # post \<and> CacheIdempotency paymentId0 \<in> set post) \<and>
   rs_outcome (x402PaymentMiddleware env0 routes0 nets0 ''myapi'' req_paid
     (rs_store (x402PaymentMiddleware env0 routes0 nets0 ''myapi'' req_paid Map.empty))) = Next \<and>
   rs_headers (x402PaymentMiddleware env0 routes0 nets0 ''myapi'' req_paid
     (rs_store (x402PaymentMiddleware env0 routes0 nets0 ''myapi'' req_paid Map.empty))) =
     rs_headers (x402PaymentMiddleware env0 routes0 nets0 ''myapi'' req_paid Map.empty) \<and>
   settlements (rs_log (x402PaymentMiddleware env0 routes0 nets0 ''myapi'' req_paid
     (rs_store (x402PaymentMiddleware env0 routes0 nets0 ''myapi'' req_paid Map.empty)))) = 0"
proof -
  let ?r1 = "x402PaymentMiddleware env0 routes0 nets0 ''myapi'' req_paid Map.empty"
  let ?r2 = "x402PaymentMiddleware env0 routes0 nets0 ''myapi'' req_paid (rs_store ?r1)"
  let ?receipt = "\<lparr>rc_success = True, rc_txHash = ''0xtx'', rc_network = ''eip155:8453'',
                    rc_blockNumber = Some 100, rc_facilitator = None\<rparr>"
  have l1: "rs_log ?r1 =
     [LookupIdempotency paymentId0, Verify ''EVM'', ReadCredit (credit_key alice ''myapi''),
      ReserveNonce ''0x01'' True, Settle ''EVM'' True, ConfirmNonce ''0x01'',
      CacheIdempotency paymentId0]" by code_simp
  then have m: "CacheIdempotency paymentId0 \<in> set (rs_log ?r1)" by simp
  note t1 = idempotency_lookup_first_write_last [OF refl, of env0 routes0 nets0 "''myapi''" req_paid Map.empty]
  from t1 have s1: "sorted_wrt (<) (map phase (rs_log ?r1))" by (rule conjunct1)
  from t1 [THEN conjunct2, THEN conjunct2, THEN conjunct2, THEN conjunct1] m
  have w1: "\<exists>pre post p. rs_log ?r1 = pre @ Settle p True # post \<and>
              CacheIdempotency paymentId0 \<in> set post" by blast
  have h1: "rs_headers ?r1 = [(''PAYMENT-RESPONSE'', ReceiptHeader ?receipt)]" by code_simp
  have rt: "routes0 ''myapi'' = Some myapi" by (simp add: routes0_def)
  have hd: "truthy (payment_header req_paid)" by code_simp
  have dc: "decode env0 (the (payment_header req_paid)) = Some envelope_paid" by code_simp
  have ex: "extractPaymentIdentifier envelope_paid = Some paymentId0" by code_simp
  have gc: "getIdempotencyCache (store_throws env0 GetIdempotencyCache) (rs_store ?r1) paymentId0 =
              Some (VIdem \<lparr>id_timestamp = 1700000000000,
                      id_response = Some \<lparr>ir_paymentResponseHeader = Some ?receipt,
                                           ir_settlement = Some ?receipt\<rparr>\<rparr>)" by code_simp
  note t2 = idempotency_lookup_first_write_last
              [OF refl, of env0 routes0 nets0 "''myapi''" req_paid "rs_store ?r1"]
  from t2 [THEN conjunct2, THEN conjunct2, THEN conjunct2, THEN conjunct2, THEN conjunct2,
           THEN conjunct2, rule_format, of myapi envelope_paid paymentId0] rt hd dc ex gc
  have "rs_outcome ?r2 = Next \<and>
        rs_headers ?r2 = [(''PAYMENT-RESPONSE'', ReceiptHeader ?receipt)] \<and>
        settlements (rs_log ?r2) = 0"
    by (simp add: cached_header_def settlements_def)
  with h1 have "rs_outcome ?r2 = Next \<and> rs_headers ?r2 = rs_headers ?r1 \<and>
        settlements (rs_log ?r2) = 0" by simp
  with l1 s1 w1 show ?thesis by (intro conjI) (erule conjunct1 | assumption | elim conjE)+
qed

section \<open>The credit counter\<close>

lemma counter_decrementCredit:
  "decrementCredit throws t payer route = (consumed, t') \<Longrightarrow>
   (consumed \<longrightarrow> 0 < counter t (credit_key payer route) \<and>
       counter t' (credit_key payer route) = counter t (credit_key payer route) - 1) \<and>
   (\<not> consumed \<longrightarrow> t' = t) \<and>
   (\<forall>k. k \<noteq> credit_key payer route \<longrightarrow> t' k = t k)"
  by (auto simp: decrementCredit_def decrement_script_def redis_GET_def redis_DECR_def counter_def
      split: if_splits option.splits sum.splits prod.splits rvalue.splits elim!: lua_count.elims)

lemma counter_incrementCredit:
  "incrementCredit throws t payer route cap ttl = (n, t') \<Longrightarrow>
   (counter t' (credit_key payer route) = counter t (credit_key payer route) \<or>
    counter t' (credit_key payer route) = counter t (credit_key payer route) + 1 \<and>
      counter t (credit_key payer route) < cap \<or>
    counter t' (credit_key payer route) = 0) \<and>
   (\<forall>k. k \<noteq> credit_key payer route \<longrightarrow> t' k = t k)"
  by (auto simp: incrementCredit_def increment_script_def redis_GET_def redis_INCR_def
      redis_EXPIRE_def counter_def Let_def
      split: if_splits option.splits sum.splits prod.splits rvalue.splits elim!: lua_count.elims)

lemma ttl_incrementCredit:
  "incrementCredit False t payer route cap ttl = (n, t') \<Longrightarrow> 0 < ttl \<Longrightarrow>
   lua_count (redis_GET t (credit_key payer route)) \<noteq> None \<Longrightarrow>
   t' (credit_key payer route) = Some (v, e) \<Longrightarrow> e = Some ttl"
  by (auto simp: incrementCredit_def increment_script_def redis_GET_def redis_INCR_def
      redis_EXPIRE_def Let_def
      split: if_splits option.splits prod.splits rvalue.splits)

lemma credit_step_range:
  assumes "0 \<le> counter s key" "counter s key \<le> cap"
  shows "0 \<le> counter (credit_step cap s op) key \<and> counter (credit_step cap s op) key \<le> cap"
proof (cases op)
  case (Increment throws payer route ttl)
  obtain n t' where r: "incrementCredit throws s payer route cap ttl = (n, t')"
    by (cases "incrementCredit throws s payer route cap ttl")
  have st: "credit_step cap s op = t'" using Increment r by simp
  show ?thesis
  proof (cases "key = credit_key payer route")
    case True
    from counter_incrementCredit [OF r, THEN conjunct1] have
      "counter t' key = counter s key \<or>
       counter t' key = counter s key + 1 \<and> counter s key < cap \<or> counter t' key = 0"
      unfolding True .
    then show ?thesis unfolding st using assms by linarith
  next
    case False
    with counter_incrementCredit [OF r, THEN conjunct2] have "t' key = s key" by blast
    then have "counter t' key = counter s key" by (simp add: counter_def)
    then show ?thesis unfolding st using assms by simp
  qed
next
  case (Decrement throws payer route)
  obtain c t' where r: "decrementCredit throws s payer route = (c, t')"
    by (cases "decrementCredit throws s payer route")
  have st: "credit_step cap s op = t'" using Decrement r by simp
  note f = counter_decrementCredit [OF r]
  show ?thesis
  proof (cases "key = credit_key payer route")
    case True
    show ?thesis
    proof (cases c)
      case True
      with f have "counter t' (credit_key payer route) = counter s (credit_key payer route) - 1"
        and "0 < counter s (credit_key payer route)" by simp_all
      then show ?thesis unfolding st using assms \<open>key = credit_key payer route\<close> by simp
    next
      case False
      with f have "t' = s" by simp
      then show ?thesis unfolding st using assms by simp
    qed
  next
    case False
    with f have "t' key = s key" by simp
    then have "counter t' key = counter s key" by (simp add: counter_def)
    then show ?thesis unfolding st using assms by simp
  qed
qed

lemma credit_run_range:
  "0 \<le> counter s key \<Longrightarrow> counter s key \<le> cap \<Longrightarrow>
   0 \<le> counter (credit_run cap ops s) key \<and> counter (credit_run cap ops s) key \<le> cap"
  unfolding credit_run_def
proof (induction ops arbitrary: s)
  case Nil
  then show ?case by simp
next
  case (Cons op ops)
  from credit_step_range [OF Cons.prems, of op] have
    "0 \<le> counter (credit_step cap s op) key" "counter (credit_step cap s op) key \<le> cap"
    by simp_all
  from Cons.IH [OF this] show ?case by simp
qed

text \<open>
  Claim C7. A counter that starts in \<open>[0, cap]\<close> stays there under every sequence of
  increments with that cap and decrements, by any payers on any routes, whether or not
  single calls throw. A decrement reports \<open>consumed\<close> exactly when it lowered the counter
  by one, which it does only to a positive counter; an increment raises the counter, by one,
  only when it was below the cap, and whenever its script runs with a positive time to live
  the key, if it holds a counter, expires after that time: the refresh does not depend on
  the cap.
\<close>

theorem credit_counter_stays_in_range:
  assumes "0 \<le> counter s (credit_key payer route)"
    and "counter s (credit_key payer route) \<le> cap"
  shows "(\<forall>ops. 0 \<le> counter (credit_run cap ops s) (credit_key payer route) \<and>
                counter (credit_run cap ops s) (credit_key payer route) \<le> cap) \<and>
         (\<forall>throws. case decrementCredit throws s payer route of
            (consumed, s') \<Rightarrow>
              (consumed \<longleftrightarrow>
                 counter s' (credit_key payer route) = counter s (credit_key payer route) - 1) \<and>
              (consumed \<longrightarrow> 0 < counter s (credit_key payer route)) \<and>
              (\<not> consumed \<longrightarrow> s' = s)) \<and>
         (\<forall>throws ttl. case incrementCredit throws s payer route cap ttl of
            (n, s') \<Rightarrow>
              (counter s (credit_key payer route) < counter s' (credit_key payer route) \<longrightarrow>
                 counter s (credit_key payer route) < cap \<and>
                 counter s' (credit_key payer route) = counter s (credit_key payer route) + 1) \<and>
              (\<not> throws \<and> 0 < ttl \<and> lua_count (redis_GET s (credit_key payer route)) \<noteq> None \<longrightarrow>
                 (\<forall>v t. s' (credit_key payer route) = Some (v, t) \<longrightarrow> t = Some ttl)))"
proof (intro conjI allI)
  fix ops
  from credit_run_range [OF assms]
  show "0 \<le> counter (credit_run cap ops s) (credit_key payer route)"
    and "counter (credit_run cap ops s) (credit_key payer route) \<le> cap" by simp_all
next
  fix throws
  obtain c t' where r: "decrementCredit throws s payer route = (c, t')"
    by (cases "decrementCredit throws s payer route")
  from counter_decrementCredit [OF r]
  show "case decrementCredit throws s payer route of
          (consumed, s') \<Rightarrow>
            (consumed \<longleftrightarrow>
               counter s' (credit_key payer route) = counter s (credit_key payer route) - 1) \<and>
            (consumed \<longrightarrow> 0 < counter s (credit_key payer route)) \<and>
            (\<not> consumed \<longrightarrow> s' = s)"
    unfolding r by (cases c) simp_all
next
  fix throws ttl
  obtain n t' where r: "incrementCredit throws s payer route cap ttl = (n, t')"
    by (cases "incrementCredit throws s payer route cap ttl")
  from counter_incrementCredit [OF r, THEN conjunct1] assms(1)
  have up: "counter s (credit_key payer route) < counter t' (credit_key payer route) \<longrightarrow>
              counter s (credit_key payer route) < cap \<and>
              counter t' (credit_key payer route) = counter s (credit_key payer route) + 1"
    by linarith
  have refreshed: "\<not> throws \<and> 0 < ttl \<and> lua_count (redis_GET s (credit_key payer route)) \<noteq> None \<longrightarrow>
              (\<forall>v t. t' (credit_key payer route) = Some (v, t) \<longrightarrow> t = Some ttl)"
  proof (cases throws)
    case True
    then show ?thesis by simp
  next
    case False
    with r have "incrementCredit False s payer route cap ttl = (n, t')" by simp
    from ttl_incrementCredit [OF this] show ?thesis by blast
  qed
  from up refreshed
  show "case incrementCredit throws s payer route cap ttl of
          (n, s') \<Rightarrow>
            (counter s (credit_key payer route) < counter s' (credit_key payer route) \<longrightarrow>
               counter s (credit_key payer route) < cap \<and>
               counter s' (credit_key payer route) = counter s (credit_key payer route) + 1) \<and>
            (\<not> throws \<and> 0 < ttl \<and> lua_count (redis_GET s (credit_key payer route)) \<noteq> None \<longrightarrow>
               (\<forall>v t. s' (credit_key payer route) = Some (v, t) \<longrightarrow> t = Some ttl))"
    unfolding r by simp
qed

theorem credit_counter_stays_in_range_witness:
  "0 \<le> counter store_one_credit (credit_key alice ''myapi'') \<and>
   counter store_one_credit (credit_key alice ''myapi'') \<le> 2 \<and>
   counter (credit_run 2 credit_ops0 store_one_credit) (credit_key alice ''myapi'') = 1 \<and>
   0 \<le> counter (credit_run 2 credit_ops0 store_one_credit) (credit_key alice ''myapi'') \<and>
   counter (credit_run 2 credit_ops0 store_one_credit) (credit_key alice ''myapi'') \<le> 2 \<and>
   fst (decrementCredit False store_one_credit alice ''myapi'') \<and>
   fst (incrementCredit False store_one_credit alice ''myapi'' 2 86400) = 2"
proof -
  have h1: "0 \<le> counter store_one_credit (credit_key alice ''myapi'')" by code_simp
  have h2: "counter store_one_credit (credit_key alice ''myapi'') \<le> 2" by code_simp
  have v: "counter (credit_run 2 credit_ops0 store_one_credit) (credit_key alice ''myapi'') = 1"
    by code_simp
  have d: "fst (decrementCredit False store_one_credit alice ''myapi'')" by code_simp
  have i: "fst (incrementCredit False store_one_credit alice ''myapi'' 2 86400) = 2" by code_simp
  from credit_counter_stays_in_range [OF h1 h2]
  have "0 \<le> counter (credit_run 2 credit_ops0 store_one_credit) (credit_key alice ''myapi'') \<and>
        counter (credit_run 2 credit_ops0 store_one_credit) (credit_key alice ''myapi'') \<le> 2"
    by blast
  with h1 h2 v d i show ?thesis by simp
qed

section \<open>The payer of the credit operations\<close>








section \<open>The recipients of the challenge\<close>

text \<open>
  Every accept entry carries the recipient the precedence rule gives its network, and an
  SVM entry is emitted only with a recipient.
\<close>

lemma accepts_loop_payTo:
  "\<forall>a \<in> set (accepts_loop rc resource fee nws).
     \<exists>nw \<in> set nws. ac_network a = nw_caip2 nw \<and>
       ac_payTo a =
         (if isSvmNetwork nw then rt_payToSol rc
          else (case nw_facilitator nw of
                  None \<Rightarrow> rt_payTo rc
                | Some f \<Rightarrow> if truthy (fc_facilitatorContract f) then fc_facilitatorContract f
                            else rt_payTo rc)) \<and>
       (isSvmNetwork nw \<longrightarrow> truthy (ac_payTo a))"
  by (induction nws) (auto simp: Let_def effectivePayTo_def js_or_def split: option.splits)

text \<open>
  Claim C9. An accept entry that lacks a recipient should be omitted; the SVM branch of the
  loop does so, the EVM branch does not. With Base active and no pay-to address configured
  for the route, the challenge carries the Base entry without a recipient, while the
  verifier rejects every payment on that route for the missing address.
\<close>

theorem challenge_advertises_missing_recipient:
  "pr_accepts (buildPaymentRequired env0 [(''eip155:8453'', BASE)] myapi_without_payTo req_unpaid) =
     [\<lparr>ac_scheme = ''exact'', ac_network = ''eip155:8453'', ac_maxAmountRequired = 10000,
       ac_amount = 10000, ac_maxTimeoutSeconds = 3600,
       ac_resource = ''https://gw.example/v1/myapi/x'',
       ac_description = ''Your API description here.'', ac_mimeType = ''application/json'',
       ac_payTo = None, ac_asset = ''0x833589fCD6eDb6E08f4c7C32D4f71b54bdA02913'',
       ac_extra = Eip712Domain ''USD Coin'' (Some ''2'')\<rparr>] \<and>
   verifyPaymentEvm env0 [(''eip155:8453'', BASE)] Map.empty envelope_base myapi_without_payTo =
     Inr (Invalid (Text ''No payTo address configured''))"
  by code_simp

section \<open>A cached payment identifier\<close>

lemma extractPaymentIdentifier_Some:
  "extractPaymentIdentifier pp = Some i \<Longrightarrow> 16 \<le> length i \<and> length i \<le> 128 \<and> list_all id_char i"
  by (auto simp: extractPaymentIdentifier_def Let_def
      split: option.splits jsval.splits if_splits)

lemma extractPaymentIdentifier_top:
  "pp_extensions pp = Some x \<Longrightarrow> ex_paymentId x = Some (Str i) \<Longrightarrow>
   16 \<le> length i \<Longrightarrow> length i \<le> 128 \<Longrightarrow> list_all id_char i \<Longrightarrow>
   extractPaymentIdentifier pp = Some i"
  by (auto simp: extractPaymentIdentifier_def Let_def)

lemma getIdempotencyCache_record:
  "s (IDEMPOTENCY_PREFIX @ i) = Some (VIdem r, t) \<Longrightarrow> getIdempotencyCache False s i = Some (VIdem r)"
  by (simp add: getIdempotencyCache_def redis_GET_def)

text \<open>
  Claim C10, amended. On a configured route, if the payment header decodes to an envelope
  that carries a well-formed payment identifier (16 to 128 characters over
  \<open>[A-Za-z0-9_-]\<close>) and the cache read returns a record for it (which it does when the read
  does not throw and a record is stored), the middleware proceeds at once: the only event
  is the lookup, so there is no network resolution, no verification and no settlement, the
  store is unchanged, and nothing else of the envelope is read.
\<close>

theorem cached_payment_forwards_unchecked:
  assumes "R k = Some rc" and "truthy (payment_header req)"
    and "decode e (the (payment_header req)) = Some pp"
    and "extractPaymentIdentifier pp = Some paymentId"
    and "getIdempotencyCache (store_throws e GetIdempotencyCache) s paymentId = Some cached"
  shows "x402PaymentMiddleware e R nets k req s =
           \<lparr>rs_outcome = Next,
            rs_headers = (case cached_header cached of
                            None \<Rightarrow> []
                          | Some h \<Rightarrow> [(''PAYMENT-RESPONSE'', ReceiptHeader h)]),
            rs_store = s, rs_log = [LookupIdempotency paymentId], rs_finish = None\<rparr> \<and>
         16 \<le> length paymentId \<and> length paymentId \<le> 128 \<and> list_all id_char paymentId \<and>
         (\<forall>x i. pp_extensions pp = Some x \<and> ex_paymentId x = Some (Str i) \<and>
                16 \<le> length i \<and> length i \<le> 128 \<and> list_all id_char i \<longrightarrow> paymentId = i) \<and>
         (\<forall>r t. \<not> store_throws e GetIdempotencyCache \<and>
                s (IDEMPOTENCY_PREFIX @ paymentId) = Some (VIdem r, t) \<longrightarrow> cached = VIdem r)"
proof (intro conjI allI impI)
  from assms show "x402PaymentMiddleware e R nets k req s =
           \<lparr>rs_outcome = Next,
            rs_headers = (case cached_header cached of
                            None \<Rightarrow> []
                          | Some h \<Rightarrow> [(''PAYMENT-RESPONSE'', ReceiptHeader h)]),
            rs_store = s, rs_log = [LookupIdempotency paymentId], rs_finish = None\<rparr>"
    by (simp add: x402PaymentMiddleware_def after_decode_def)
next
  from extractPaymentIdentifier_Some [OF assms(4)]
  show "16 \<le> length paymentId" "length paymentId \<le> 128" "list_all id_char paymentId"
    by simp_all
next
  fix x i
  assume "pp_extensions pp = Some x \<and> ex_paymentId x = Some (Str i) \<and>
                16 \<le> length i \<and> length i \<le> 128 \<and> list_all id_char i"
  then have "extractPaymentIdentifier pp = Some i"
    by (auto intro: extractPaymentIdentifier_top)
  with assms(4) show "paymentId = i" by simp
next
  fix r t
  assume "\<not> store_throws e GetIdempotencyCache \<and>
                s (IDEMPOTENCY_PREFIX @ paymentId) = Some (VIdem r, t)"
  with getIdempotencyCache_record [of s paymentId r t] assms(5) show "cached = VIdem r" by simp
qed

theorem cached_payment_forwards_unchecked_witness:
  "routes0 ''myapi'' = Some myapi \<and> truthy (payment_header req_replay) \<and>
   decode env0 (the (payment_header req_replay)) = Some envelope_replay \<and>
   extractPaymentIdentifier envelope_replay = Some paymentId0 \<and>
   map_of nets0 (pp_network envelope_replay) = None \<and>
   x402PaymentMiddleware env0 routes0 nets0 ''myapi'' req_replay store_cached =
     \<lparr>rs_outcome = Next, rs_headers = [(''PAYMENT-RESPONSE'', ReceiptHeader receipt0)],
      rs_store = store_cached, rs_log = [LookupIdempotency paymentId0], rs_finish = None\<rparr>"
proof -
  have r: "routes0 ''myapi'' = Some myapi" by (simp add: routes0_def)
  have h: "truthy (payment_header req_replay)" by code_simp
  have d: "decode env0 (the (payment_header req_replay)) = Some envelope_replay" by code_simp
  have x: "extractPaymentIdentifier envelope_replay = Some paymentId0" by code_simp
  have n: "map_of nets0 (pp_network envelope_replay) = None" by code_simp
  have c: "getIdempotencyCache (store_throws env0 GetIdempotencyCache) store_cached paymentId0 =
             Some (VIdem \<lparr>id_timestamp = 1690000000000,
                     id_response = Some \<lparr>ir_paymentResponseHeader = Some receipt0,
                                          ir_settlement = Some receipt0\<rparr>\<rparr>)"
    by (simp add: getIdempotencyCache_def env0_def redis_GET_def store_cached_def)
  from cached_payment_forwards_unchecked
         [where R = routes0 and k = "''myapi''" and nets = nets0 and s = store_cached, OF r h d x c]
  have "x402PaymentMiddleware env0 routes0 nets0 ''myapi'' req_replay store_cached =
     \<lparr>rs_outcome = Next, rs_headers = [(''PAYMENT-RESPONSE'', ReceiptHeader receipt0)],
      rs_store = store_cached, rs_log = [LookupIdempotency paymentId0], rs_finish = None\<rparr>"
    by (simp add: cached_header_def)
  with r h d x n show ?thesis by blast
qed

text \<open>
  Claim C10 as stated fails when the cache read throws: the record is stored, the read
  counts as a miss, and the envelope, which names no supported network, is answered 402.
\<close>

theorem cached_payment_counterexample:
  "store_cached (IDEMPOTENCY_PREFIX @ paymentId0) =
     Some (VIdem \<lparr>id_timestamp = 1690000000000,
             id_response = Some \<lparr>ir_paymentResponseHeader = Some receipt0,
                                  ir_settlement = Some receipt0\<rparr>\<rparr>, Some 3600) \<and>
   decode env_cache_read_fails (the (payment_header req_replay)) = Some envelope_replay \<and>
   extractPaymentIdentifier envelope_replay = Some paymentId0 \<and>
   rs_outcome (x402PaymentMiddleware env_cache_read_fails routes0 nets0 ''myapi'' req_replay store_cached) =
     Respond 402 \<lparr>rb_challenge = None, rb_error = ''Unsupported network'', rb_message = None,
                  rb_reason = Some (Text ''Network nowhere is not supported'')\<rparr>"
proof -
  have "store_cached (IDEMPOTENCY_PREFIX @ paymentId0) =
     Some (VIdem \<lparr>id_timestamp = 1690000000000,
             id_response = Some \<lparr>ir_paymentResponseHeader = Some receipt0,
                                  ir_settlement = Some receipt0\<rparr>\<rparr>, Some 3600)"
    by (simp add: store_cached_def IDEMPOTENCY_TTL_def)
  moreover have "decode env_cache_read_fails (the (payment_header req_replay)) = Some envelope_replay"
    by code_simp
  moreover have "extractPaymentIdentifier envelope_replay = Some paymentId0" by code_simp
  moreover have "rs_outcome (x402PaymentMiddleware env_cache_read_fails routes0 nets0 ''myapi''
                   req_replay store_cached) =
     Respond 402 \<lparr>rb_challenge = None, rb_error = ''Unsupported network'', rb_message = None,
                  rb_reason = Some (Text ''Network nowhere is not supported'')\<rparr>"
    by code_simp
  ultimately show ?thesis by blast
qed

end
